theory Spec2Isabelle
  imports Complex_Main
begin

section \<open>Python errors\<close>

text \<open>
  Every exception the modelled code can raise is a value of \<open>py_error\<close>; a function that
  can raise returns \<open>py_error + 'a\<close>, with \<open>Inl\<close> for the exception.
\<close>

datatype py_error =
    AssertionError
  | NameError
  | TypeError
  | ValueError
  | KeyError
  | IndexError
  | FileNotFoundError

section \<open>Network constructors (nux/networks/mlp.py, nux/networks/cnn.py)\<close>

text \<open>
  The constructors store their arguments and select the nonlinearity, the normalization
  and the block class from string names. The callables \<open>w_init\<close> and \<open>b_init\<close> are stored
  unchanged and never inspected by a constructor; they are left out of the records.
\<close>

datatype nonlin = Relu | Tanh | Sigmoid | Swish | Lipswish

datatype norm_layer = BatchNorm | InstanceNorm

datatype block_class = BottleneckConv | ReverseBottleneckConv

subsection \<open>MLP\<close>

record mlp =
  mlp_out_dim :: nat
  mlp_layer_sizes :: "nat list"
  mlp_parameter_norm :: "string option"
  mlp_nonlinearity :: nonlin

text \<open>
  \<open>MLP.__init__\<close>, lines 66-85. The branch for \<open>"swish"\<close> evaluates \<open>jax.nn.swish(x)\<close>,
  and no \<open>x\<close> is bound in the constructor or in the module: NameError.
\<close>

definition MLP_init :: "nat \<Rightarrow> nat list \<Rightarrow> string \<Rightarrow> string option \<Rightarrow> py_error + mlp" where
  "MLP_init out_dim layer_sizes nonlinearity parameter_norm =
     (if nonlinearity = ''relu'' then
        Inr \<lparr>mlp_out_dim = out_dim, mlp_layer_sizes = layer_sizes @ [out_dim],
             mlp_parameter_norm = parameter_norm, mlp_nonlinearity = Relu\<rparr>
      else if nonlinearity = ''tanh'' then
        Inr \<lparr>mlp_out_dim = out_dim, mlp_layer_sizes = layer_sizes @ [out_dim],
             mlp_parameter_norm = parameter_norm, mlp_nonlinearity = Tanh\<rparr>
      else if nonlinearity = ''sigmoid'' then
        Inr \<lparr>mlp_out_dim = out_dim, mlp_layer_sizes = layer_sizes @ [out_dim],
             mlp_parameter_norm = parameter_norm, mlp_nonlinearity = Sigmoid\<rparr>
      else if nonlinearity = ''swish'' then Inl NameError
      else if nonlinearity = ''lipswish'' then
        Inr \<lparr>mlp_out_dim = out_dim, mlp_layer_sizes = layer_sizes @ [out_dim],
             mlp_parameter_norm = parameter_norm, mlp_nonlinearity = Lipswish\<rparr>
      else Inl AssertionError)"

subsection \<open>Conv\<close>

record conv_kwargs =
  kw_parameter_norm :: "string option"
  kw_stride :: "nat \<times> nat"
  kw_padding :: string
  kw_lhs_dilation :: "nat \<times> nat"
  kw_rhs_dilation :: "nat \<times> nat"
  kw_use_bias :: bool
  kw_transpose :: bool

record conv =
  conv_out_channel :: nat
  conv_kernel_shape :: "nat \<times> nat"
  conv_kw :: conv_kwargs

text \<open>\<open>Conv.__init__\<close>, lines 79-104: stores its arguments, raises nothing.\<close>

definition Conv_init :: "nat \<Rightarrow> nat \<times> nat \<Rightarrow> string option \<Rightarrow> bool \<Rightarrow> conv" where
  "Conv_init out_channel kernel_shape parameter_norm use_bias =
     \<lparr>conv_out_channel = out_channel, conv_kernel_shape = kernel_shape,
      conv_kw = \<lparr>kw_parameter_norm = parameter_norm, kw_stride = (1, 1),
                 kw_padding = ''SAME'', kw_lhs_dilation = (1, 1), kw_rhs_dilation = (1, 1),
                 kw_use_bias = use_bias, kw_transpose = False\<rparr>\<rparr>"

subsection \<open>RepeatedConv and its two subclasses\<close>

record repeated_conv =
  rc_channel_sizes :: "nat list"
  rc_kernel_shapes :: "(nat \<times> nat) list"
  rc_conv_kwargs :: conv_kwargs
  rc_nonlinearity :: nonlin
  rc_norm :: "norm_layer option"

text \<open>
  The nonlinearity chain of \<open>RepeatedConv.__init__\<close>, lines 166-177: here \<open>"swish"\<close>
  stores the function \<open>jax.nn.swish\<close> itself.
\<close>

definition rc_select_nonlinearity :: "string \<Rightarrow> py_error + nonlin" where
  "rc_select_nonlinearity nonlinearity =
     (if nonlinearity = ''relu'' then Inr Relu
      else if nonlinearity = ''tanh'' then Inr Tanh
      else if nonlinearity = ''sigmoid'' then Inr Sigmoid
      else if nonlinearity = ''swish'' then Inr Swish
      else if nonlinearity = ''lipswish'' then Inr Lipswish
      else Inl AssertionError)"

text \<open>
  The normalization chain, lines 179-191: two names are recognised, and the final
  \<open>else\<close> stores \<open>None\<close> for the default \<open>None\<close> and for every other value alike.
\<close>

definition rc_select_norm :: "string option \<Rightarrow> norm_layer option" where
  "rc_select_norm normalization =
     (if normalization = Some ''batch_norm'' then Some BatchNorm
      else if normalization = Some ''instance_norm'' then Some InstanceNorm
      else None)"

definition RepeatedConv_init ::
  "nat list \<Rightarrow> (nat \<times> nat) list \<Rightarrow> conv_kwargs \<Rightarrow> string option \<Rightarrow> string
     \<Rightarrow> py_error + repeated_conv" where
  "RepeatedConv_init channel_sizes kernel_shapes kwargs normalization nonlinearity =
     (if length channel_sizes \<noteq> length kernel_shapes then Inl AssertionError
      else case rc_select_nonlinearity nonlinearity of
        Inl e \<Rightarrow> Inl e
      | Inr f \<Rightarrow>
          Inr \<lparr>rc_channel_sizes = channel_sizes, rc_kernel_shapes = kernel_shapes,
               rc_conv_kwargs = kwargs\<lparr>kw_transpose := False\<rparr>,
               rc_nonlinearity = f, rc_norm = rc_select_norm normalization\<rparr>)"

text \<open>The keyword arguments a subclass passes on: defaults except \<open>use_bias=False\<close>.\<close>

definition block_kwargs :: "string option \<Rightarrow> conv_kwargs" where
  "block_kwargs parameter_norm =
     \<lparr>kw_parameter_norm = parameter_norm, kw_stride = (1, 1), kw_padding = ''SAME'',
      kw_lhs_dilation = (1, 1), kw_rhs_dilation = (1, 1), kw_use_bias = False,
      kw_transpose = False\<rparr>"

definition BottleneckConv_init ::
  "nat \<Rightarrow> nat \<Rightarrow> string option \<Rightarrow> string option \<Rightarrow> string \<Rightarrow> py_error + repeated_conv" where
  "BottleneckConv_init hidden_channel out_channel parameter_norm normalization nonlinearity =
     RepeatedConv_init [hidden_channel, hidden_channel, out_channel]
       [(1, 1), (3, 3), (1, 1)] (block_kwargs parameter_norm) normalization nonlinearity"

definition ReverseBottleneckConv_init ::
  "nat \<Rightarrow> nat \<Rightarrow> string option \<Rightarrow> string option \<Rightarrow> string \<Rightarrow> py_error + repeated_conv" where
  "ReverseBottleneckConv_init hidden_channel out_channel parameter_norm normalization
       nonlinearity =
     RepeatedConv_init [hidden_channel, hidden_channel, out_channel]
       [(3, 3), (1, 1), (3, 3)] (block_kwargs parameter_norm) normalization nonlinearity"

subsection \<open>ConvBlock\<close>

record conv_block =
  cb_out_channel :: nat
  cb_hidden_channel :: nat
  cb_use_bias :: bool
  cb_norm :: "string option"
  cb_parameter_norm :: "string option"
  cb_nonlinearity :: nonlin
  cb_norm_layers :: "norm_layer list"
  cb_convs :: "conv list"

text \<open>
  \<open>ConvBlock.__init__\<close>, lines 267-325. The nonlinearity chain is the one of \<open>MLP\<close>,
  with the same \<open>jax.nn.swish(x)\<close>. The argument \<open>norm\<close> (here \<open>norm_name\<close>, as
  \<open>norm\<close> is a constant of HOL) is stored as given; three layers are
  created for each of the two recognised names and none for anything else.
\<close>

definition cb_select_nonlinearity :: "string \<Rightarrow> py_error + nonlin" where
  "cb_select_nonlinearity nonlinearity =
     (if nonlinearity = ''relu'' then Inr Relu
      else if nonlinearity = ''tanh'' then Inr Tanh
      else if nonlinearity = ''sigmoid'' then Inr Sigmoid
      else if nonlinearity = ''swish'' then Inl NameError
      else if nonlinearity = ''lipswish'' then Inr Lipswish
      else Inl AssertionError)"

definition cb_make_norms :: "string option \<Rightarrow> norm_layer list" where
  "cb_make_norms norm_name =
     (if norm_name = Some ''batch_norm'' then [BatchNorm, BatchNorm, BatchNorm]
      else if norm_name = Some ''instance_norm'' then [InstanceNorm, InstanceNorm, InstanceNorm]
      else [])"

definition ConvBlock_init ::
  "nat \<Rightarrow> nat \<Rightarrow> string option \<Rightarrow> string option \<Rightarrow> string \<Rightarrow> bool
     \<Rightarrow> py_error + conv_block" where
  "ConvBlock_init out_channel hidden_channel parameter_norm norm_name nonlinearity use_bias =
     (case cb_select_nonlinearity nonlinearity of
        Inl e \<Rightarrow> Inl e
      | Inr f \<Rightarrow>
          Inr \<lparr>cb_out_channel = out_channel, cb_hidden_channel = hidden_channel,
               cb_use_bias = use_bias, cb_norm = norm_name, cb_parameter_norm = parameter_norm,
               cb_nonlinearity = f, cb_norm_layers = cb_make_norms norm_name,
               cb_convs = [Conv_init hidden_channel (3, 3) parameter_norm use_bias,
                           Conv_init hidden_channel (1, 1) parameter_norm use_bias,
                           Conv_init out_channel (3, 3) parameter_norm use_bias]\<rparr>)"

subsection \<open>CNN\<close>

record cnn =
  cnn_hidden_channel :: nat
  cnn_n_blocks :: nat
  cnn_out_channel :: nat
  cnn_squeeze_excite :: bool
  cnn_kw_parameter_norm :: "string option"
  cnn_kw_normalization :: "string option"
  cnn_kw_nonlinearity :: string
  cnn_conv_block :: block_class

text \<open>
  \<open>CNN.__init__\<close>, lines 373-390. The nonlinearity and normalization names are only
  stored in \<open>conv_block_kwargs\<close>; the blocks that read them are built by \<open>__call__\<close>.
\<close>

definition CNN_init ::
  "nat \<Rightarrow> nat \<Rightarrow> nat \<Rightarrow> string option \<Rightarrow> string option \<Rightarrow> string \<Rightarrow> bool \<Rightarrow> string
     \<Rightarrow> py_error + cnn" where
  "CNN_init n_blocks hidden_channel out_channel parameter_norm normalization nonlinearity
       squeeze_excite block_type =
     (if block_type = ''bottleneck'' then
        Inr \<lparr>cnn_hidden_channel = hidden_channel, cnn_n_blocks = n_blocks,
             cnn_out_channel = out_channel, cnn_squeeze_excite = squeeze_excite,
             cnn_kw_parameter_norm = parameter_norm, cnn_kw_normalization = normalization,
             cnn_kw_nonlinearity = nonlinearity, cnn_conv_block = BottleneckConv\<rparr>
      else if block_type = ''reverse_bottleneck'' then
        Inr \<lparr>cnn_hidden_channel = hidden_channel, cnn_n_blocks = n_blocks,
             cnn_out_channel = out_channel, cnn_squeeze_excite = squeeze_excite,
             cnn_kw_parameter_norm = parameter_norm, cnn_kw_normalization = normalization,
             cnn_kw_nonlinearity = nonlinearity, cnn_conv_block = ReverseBottleneckConv\<rparr>
      else Inl AssertionError)"

text \<open>The names each chain accepts without reaching its final \<open>else\<close>.\<close>

definition accepted_nonlinearities :: "string list" where
  "accepted_nonlinearities = [''relu'', ''tanh'', ''sigmoid'', ''swish'', ''lipswish'']"

definition known_normalizations :: "string option list" where
  "known_normalizations = [None, Some ''batch_norm'', Some ''instance_norm'']"

definition known_block_types :: "string list" where
  "known_block_types = [''bottleneck'', ''reverse_bottleneck'']"

section \<open>Checkpoint resume and save (glow_injective.py)\<close>

text \<open>
  A pytree is a tree structure and the list of its leaves. \<open>tree_unflatten\<close> rebuilds a
  tree from a structure and an iterable of leaves, and raises ValueError when the number
  of items does not fit the structure; it does not look at what the items are. A leaf is
  an array or, when a dictionary was iterated, one of its string keys.

  The file system is a map from paths to pickled objects: a list of leaves, or a
  dictionary such as \<open>misc\<close>. A dictionary is the list of its items in insertion order
  (with distinct keys), the order in which Python iterates it.
\<close>

datatype treedef = TreeDef (td_id: nat) (td_num_leaves: nat)

datatype 'a leaf = Array 'a | Key string

datatype 'a pytree = PyTree (tree_structure: treedef) (tree_leaves: "'a leaf list")

type_synonym 'k dict = "(string \<times> 'k) list"

datatype ('a, 'k) pickled = Leaves "'a leaf list" | Misc "'k dict"

type_synonym ('a, 'k) files = "string \<rightharpoonup> ('a, 'k) pickled"

text \<open>\<open>d[key]\<close> and \<open>d[key] = v\<close> on a dictionary: a new key goes to the end.\<close>

definition dict_get :: "'k dict \<Rightarrow> string \<Rightarrow> 'k option" where
  "dict_get d key = map_of d key"

fun dict_set :: "'k dict \<Rightarrow> string \<Rightarrow> 'k \<Rightarrow> 'k dict" where
  "dict_set [] key v = [(key, v)]"
| "dict_set ((k, w) # d) key v = (if k = key then (key, v) # d else (k, w) # dict_set d key v)"

text \<open>
  What iterating an unpickled object yields: the items of a list, the keys of a
  dictionary.
\<close>

definition iter_pickled :: "('a, 'k) pickled \<Rightarrow> 'a leaf list" where
  "iter_pickled obj = (case obj of Leaves ls \<Rightarrow> ls | Misc d \<Rightarrow> map (\<lambda>(k, v). Key k) d)"

definition tree_unflatten :: "treedef \<Rightarrow> 'a leaf list \<Rightarrow> py_error + 'a pytree" where
  "tree_unflatten td ls =
     (if length ls = td_num_leaves td then Inr (PyTree td ls) else Inl ValueError)"

text \<open>
  \<open>load_pytree\<close>, lines 118-120: whatever object the file holds is handed to
  \<open>tree_unflatten\<close>, which iterates it.
\<close>

definition load_pytree :: "('a, 'k) files \<Rightarrow> treedef \<Rightarrow> string \<Rightarrow> py_error + 'a pytree" where
  "load_pytree fs td dir_save =
     (case fs dir_save of
        None \<Rightarrow> Inl FileNotFoundError
      | Some leaves \<Rightarrow> tree_unflatten td (iter_pickled leaves))"

text \<open>\<open>savePytree\<close>, lines 156-157.\<close>

definition savePytree :: "('a, 'k) files \<Rightarrow> 'a pytree \<Rightarrow> string \<Rightarrow> ('a, 'k) files" where
  "savePytree fs pt dir_save = fs(dir_save \<mapsto> Leaves (tree_leaves pt))"

text \<open>Python's \<open>str\<close> on an integer: decimal digits, with a minus sign when negative.\<close>

fun str_nat :: "nat \<Rightarrow> string" where
  "str_nat n =
     (if n < 10 then [''0123456789'' ! n]
      else str_nat (n div 10) @ [''0123456789'' ! (n mod 10)])"

definition str_int :: "int \<Rightarrow> string" where
  "str_int k = (if k < 0 then CHR ''-'' # str_nat (nat (- k)) else str_nat (nat k))"

definition ckpt_dir :: "string \<Rightarrow> int \<Rightarrow> string" where
  "ckpt_dir experiment_name it = ''Experiments/'' @ experiment_name @ ''/'' @ str_int it @ ''/''"

definition misc_path :: "string \<Rightarrow> string" where
  "misc_path experiment_name = ''Experiments/'' @ experiment_name @ ''/misc.p''"

text \<open>The script's variables after the resume block, lines 123-139.\<close>

record ('a, 'k) script_vars =
  opt_state_nf :: "'a pytree"
  opt_state_nif :: "'a pytree"
  state_nf :: "'a pytree"
  state_nif :: "'a pytree"
  rng_key :: 'k
  misc :: "'k dict"
  start_it :: int

text \<open>
  The resume block. Its arguments are the values the script holds when it reaches line
  123: the freshly initialised optimizer states, the states of the two models and the key.
  The four calls of \<open>_replace\<close> (lines 129-132) build new tuples that are dropped; they
  change no variable.
\<close>

definition resume_block ::
  "('a, 'k) files \<Rightarrow> string \<Rightarrow> int \<Rightarrow> 'a pytree \<Rightarrow> 'a pytree \<Rightarrow> 'a pytree \<Rightarrow> 'a pytree \<Rightarrow> 'k
     \<Rightarrow> py_error + ('a, 'k) script_vars" where
  "resume_block fs experiment_name start_it0 opt_nf0 opt_nif0 nf_model_state nif_model_state
       key0 =
     (if start_it0 \<noteq> 0 then
        (case load_pytree fs (tree_structure opt_nf0)
                (ckpt_dir experiment_name start_it0 @ ''opt_state_nf_leaves.p'') of
           Inl e \<Rightarrow> Inl e
         | Inr o_nf \<Rightarrow>
        (case load_pytree fs (tree_structure opt_nif0)
                (ckpt_dir experiment_name start_it0 @ ''opt_state_nif_leaves.p'') of
           Inl e \<Rightarrow> Inl e
         | Inr o_nif \<Rightarrow>
        (case load_pytree fs (tree_structure nf_model_state)
                (ckpt_dir experiment_name start_it0 @ ''state_nf_leaves.p'') of
           Inl e \<Rightarrow> Inl e
         | Inr s_nf \<Rightarrow>
        (case load_pytree fs (tree_structure nif_model_state)
                (ckpt_dir experiment_name start_it0 @ ''state_nf_leaves.p'') of
           Inl e \<Rightarrow> Inl e
         | Inr s_nif \<Rightarrow>
        (case fs (misc_path experiment_name) of
           None \<Rightarrow> Inl FileNotFoundError
         | Some (Leaves ls) \<Rightarrow> Inl TypeError
         | Some (Misc m) \<Rightarrow>
        (case dict_get m ''key'' of
           None \<Rightarrow> Inl KeyError
         | Some k \<Rightarrow>
             Inr \<lparr>opt_state_nf = o_nf, opt_state_nif = o_nif, state_nf = s_nf,
                  state_nif = s_nif, rng_key = k, misc = m,
                  start_it = start_it0 + 1\<rparr>))))))
      else
        Inr \<lparr>opt_state_nf = opt_nf0, opt_state_nif = opt_nif0, state_nf = nf_model_state,
             state_nif = nif_model_state, rng_key = key0, misc = [],
             start_it = start_it0\<rparr>)"

text \<open>
  The checkpoint save block of iteration \<open>i\<close>, lines 186-205, on the unreplicated
  trees: four leaf files and the \<open>misc\<close> dictionary with the current key.
\<close>

definition save_checkpoint ::
  "('a, 'k) files \<Rightarrow> string \<Rightarrow> int \<Rightarrow> ('a, 'k) script_vars \<Rightarrow> ('a, 'k) files" where
  "save_checkpoint fs experiment_name i v =
     (let d = ckpt_dir experiment_name i;
          fs1 = savePytree fs (opt_state_nf v) (d @ ''opt_state_nf_leaves.p'');
          fs2 = savePytree fs1 (opt_state_nif v) (d @ ''opt_state_nif_leaves.p'');
          fs3 = savePytree fs2 (state_nf v) (d @ ''state_nf_leaves.p'');
          fs4 = savePytree fs3 (state_nif v) (d @ ''state_nif_leaves.p'')
      in fs4(misc_path experiment_name \<mapsto> Misc (dict_set (misc v) ''key'' (rng_key v))))"

section \<open>Affine Gaussian priors (src/flows/priors.py)\<close>

text \<open>
  Floating-point numbers are modelled as real numbers throughout. A vector is a list, a
  matrix the list of its rows (with at least one row); an input array carries its shape,
  since the code asserts on \<open>ndim\<close>. The parameters are the ones
  \<open>create_params_and_state\<close> builds: \<open>A\<close> has one row per data dimension.
\<close>

type_synonym vec = "real list"

type_synonym mat = "real list list"

record ndarray =
  nd_shape :: "nat list"
  nd_data :: "real list"

definition ndim :: "ndarray \<Rightarrow> nat" where
  "ndim a = length (nd_shape a)"

definition dot :: "vec \<Rightarrow> vec \<Rightarrow> real" where
  "dot u v = sum_list (map2 (*) u v)"

text \<open>
  \<open>A@z\<close>: the product of a matrix and a vector, a TypeError when the row length is not
  the length of the vector.
\<close>

definition matvec :: "mat \<Rightarrow> vec \<Rightarrow> py_error + vec" where
  "matvec A z =
     (if list_all (\<lambda>row. length row = length z) A then Inr (map (\<lambda>row. dot row z) A)
      else Inl TypeError)"

text \<open>
  \<open>jnp.einsum('ij,j->i', A, z)\<close>: the same product when the row length is the length of
  the vector. \<open>einsum\<close> also broadcasts an axis \<open>j\<close> of size 1 in either operand against
  the other, and raises ValueError on any other mismatch.
\<close>

definition einsum_ij_j :: "mat \<Rightarrow> vec \<Rightarrow> py_error + vec" where
  "einsum_ij_j A z =
     (if list_all (\<lambda>row. length row = length z) A then Inr (map (\<lambda>row. dot row z) A)
      else if length z = 1 then Inr (map (\<lambda>row. sum_list row * hd z) A)
      else if list_all (\<lambda>row. length row = 1) A then Inr (map (\<lambda>row. hd row * sum_list z) A)
      else Inl ValueError)"


text \<open>
  The determinant by expansion along the first row, and \<open>jnp.linalg.slogdet\<close>: the sign
  and the logarithm of the absolute value of the determinant.
\<close>

fun det :: "mat \<Rightarrow> real" where
  "det [] = 1"
| "det (r # rs) =
     (\<Sum>j\<leftarrow>[0..<length r]. (- 1) ^ j * (r ! j) *
        det (map (\<lambda>row. take j row @ drop (Suc j) row) rs))"



record prior_state =
  sigma :: real

record prior_outputs =
  out_x :: vec
  out_log_det :: real

subsection \<open>Diagonal covariance\<close>



subsection \<open>Full covariance\<close>

record full_params =
  fp_A :: mat
  fp_Sigma_chol_flat :: vec

text \<open>
  \<open>AffineGaussianPriorFullCov.forward\<close>, lines 48-80. After the assertion, the unpacking
  of \<open>A.shape\<close>, the indexing by \<open>triangular_indices\<close> and \<open>jnp.diag\<close> raise nothing on
  these parameters; line 59 then calls \<open>index_update\<close>, a name the module neither
  defines nor imports (only \<open>jax\<close>, \<open>jnp\<close>, \<open>vmap\<close>, \<open>random\<close>, \<open>jit\<close>, \<open>jaxinit\<close>,
  \<open>partial\<close>, \<open>util\<close> and \<open>base\<close> are bound). Nothing after line 59 runs.
\<close>

definition full_forward ::
  "full_params \<Rightarrow> prior_state \<Rightarrow> ndarray \<Rightarrow> py_error + prior_outputs \<times> prior_state" where
  "full_forward params state inputs =
     (if ndim inputs \<noteq> 1 then Inl AssertionError else Inl NameError)"

text \<open>
  \<open>AffineGaussianPriorFullCov.inverse\<close>, lines 82-110. \<open>A@z\<close> raises on a shape
  mismatch; \<open>jax.ops.index_update\<close> is qualified and resolves; with the parameters
  of \<open>create_params_and_state\<close> the noise step conforms; line 106 then reads
  \<open>log_diag_cov\<close>, which is bound nowhere in this function or its enclosing scopes.
\<close>

definition full_inverse ::
  "full_params \<Rightarrow> prior_state \<Rightarrow> ndarray \<Rightarrow> 'k option
     \<Rightarrow> py_error + prior_outputs \<times> prior_state" where
  "full_inverse params state inputs key =
     (if ndim inputs \<noteq> 1 then Inl AssertionError
      else case matvec (fp_A params) (nd_data inputs) of
        Inl e \<Rightarrow> Inl e
      | Inr x \<Rightarrow> Inl NameError)"

section \<open>Mixture CDF bijections (nux/flows/bijective/mixture.py)\<close>

subsection \<open>Library functions\<close>

text \<open>
  \<open>logsumexp\<close>, \<open>jax.nn.log_softmax\<close> and \<open>jax.nn.log_sigmoid\<close> by their
  mathematical definitions. \<open>jax.scipy.special.ndtr\<close>, the standard normal CDF, is a
  parameter: the Gaussian kind of mixture carries the function it calls.
\<close>

definition logsumexp :: "real list \<Rightarrow> real" where
  "logsumexp a = ln (\<Sum>v\<leftarrow>a. exp v)"

definition log_softmax :: "real list \<Rightarrow> real list" where
  "log_softmax w = map (\<lambda>v. v - logsumexp w) w"

definition log_sigmoid :: "real \<Rightarrow> real" where
  "log_sigmoid v = - ln (1 + exp (- v))"

subsection \<open>The bisection solver\<close>

text \<open>
  The loop state is the tuple \<open>(x, current_x, current_z, lower, upper, dx, i)\<close> of the
  source. The solver runs on one scalar: \<open>mixture_inverse\<close> maps it over every element
  with \<open>vmap\<close>, under which each element follows its own loop. The counter \<open>i\<close>, a
  float that starts at \<open>0.0\<close> and grows by one, is a natural number.
\<close>

record bisect_val =
  v_x :: real
  v_current_x :: real
  v_current_z :: real
  v_lower :: real
  v_upper :: real
  v_dx :: real
  v_i :: nat

text \<open>\<open>bisection_body\<close>, lines 24-38: the comparison \<open>gt\<close> is used as the number 1 or 0.\<close>

definition bisection_body :: "(real \<Rightarrow> real) \<Rightarrow> bisect_val \<Rightarrow> bisect_val" where
  "bisection_body f val =
     (let gt = (if v_current_x val > v_x val then 1 else 0 :: real);
          lt = 1 - gt;
          new_z = gt * 0.5 * (v_current_z val + v_lower val)
                + lt * 0.5 * (v_current_z val + v_upper val);
          lower' = gt * v_lower val + lt * v_current_z val;
          upper' = gt * v_current_z val + lt * v_upper val;
          current_x' = f new_z
      in \<lparr>v_x = v_x val, v_current_x = current_x', v_current_z = new_z, v_lower = lower',
          v_upper = upper', v_dx = current_x' - v_x val, v_i = v_i val + 1\<rparr>)"

text \<open>
  \<open>cond_fun\<close>, lines 44-50. \<open>jnp.allclose(dx, 0.0, atol=atol)\<close> holds when
  \<open>|dx - 0| \<le> atol + rtol * |0|\<close>.
\<close>

definition cond_fun :: "real \<Rightarrow> nat \<Rightarrow> bisect_val \<Rightarrow> bool" where
  "cond_fun atol max_iters val =
     (let max_iters_reached = (v_i val > max_iters);
          tolerance_achieved = (\<bar>v_dx val - 0\<bar> \<le> atol)
      in \<not> (max_iters_reached \<or> tolerance_achieved))"

text \<open>\<open>jax.lax.while_loop(cond_fun, partial(bisection_body, f), val)\<close>.\<close>

function while_loop :: "(real \<Rightarrow> real) \<Rightarrow> real \<Rightarrow> nat \<Rightarrow> bisect_val \<Rightarrow> bisect_val" where
  "while_loop f atol max_iters val =
     (if cond_fun atol max_iters val then while_loop f atol max_iters (bisection_body f val)
      else val)"
  by pat_completeness auto
termination
  by (relation "measure (\<lambda>(f, atol, max_iters, val). Suc max_iters - v_i val)")
     (auto simp: cond_fun_def bisection_body_def Let_def)

declare while_loop.simps [simp del]

text \<open>The initial state of \<open>bisection\<close>, line 52, and the solver, lines 40-55.\<close>

definition bisection_init :: "(real \<Rightarrow> real) \<Rightarrow> real \<Rightarrow> real \<Rightarrow> real \<Rightarrow> bisect_val" where
  "bisection_init f lower upper x =
     \<lparr>v_x = x, v_current_x = f 0, v_current_z = 0, v_lower = lower, v_upper = upper,
      v_dx = 10, v_i = 0\<rparr>"

definition bisection :: "(real \<Rightarrow> real) \<Rightarrow> real \<Rightarrow> real \<Rightarrow> real \<Rightarrow> real \<Rightarrow> nat \<Rightarrow> real" where
  "bisection f lower upper x atol max_iters =
     v_current_z (while_loop f atol max_iters (bisection_init f lower upper x))"

definition default_atol :: real where
  "default_atol = 1 / 10 ^ 8"

definition default_max_iters :: nat where
  "default_max_iters = 10000"

subsection \<open>The two mixtures\<close>

datatype mixture_kind = Gaussian (ndtr_of: "real \<Rightarrow> real") | Logistic

text \<open>\<open>_GaussianMixtureMixin.f\<close> and \<open>log_det\<close>, lines 267-279, on a scalar \<open>x\<close>.\<close>

definition gaussian_f :: "(real \<Rightarrow> real) \<Rightarrow> vec \<Rightarrow> vec \<Rightarrow> vec \<Rightarrow> real \<Rightarrow> real" where
  "gaussian_f ndtr weight_logits means log_scales x =
     (\<Sum>(wl, mu, ls)\<leftarrow>zip (log_softmax weight_logits) (zip means log_scales).
        exp wl * ndtr ((x - mu) * exp (- 0.5 * ls)))"

definition gaussian_log_det :: "vec \<Rightarrow> vec \<Rightarrow> vec \<Rightarrow> real \<Rightarrow> real" where
  "gaussian_log_det weight_logits means log_scales x =
     logsumexp (map (\<lambda>(wl, mu, ls).
         wl + (- 0.5 * (x - mu)\<^sup>2 * exp (- ls) - 0.5 * ls - 0.5 * ln (2 * pi)))
       (zip (log_softmax weight_logits) (zip means log_scales)))"

text \<open>\<open>_LogitsticMixtureMixin.f\<close> and \<open>log_det\<close>, lines 296-308.\<close>

definition logistic_f :: "vec \<Rightarrow> vec \<Rightarrow> vec \<Rightarrow> real \<Rightarrow> real" where
  "logistic_f weight_logits means log_scales x =
     exp (logsumexp (map (\<lambda>(wl, mu, ls). wl + log_sigmoid ((x - mu) * exp (- ls)))
       (zip (log_softmax weight_logits) (zip means log_scales))))"

definition logistic_log_det :: "vec \<Rightarrow> vec \<Rightarrow> vec \<Rightarrow> real \<Rightarrow> real" where
  "logistic_log_det weight_logits means log_scales x =
     logsumexp (map (\<lambda>(wl, mu, ls).
         wl + (- ls + log_sigmoid ((x - mu) * exp (- ls))
                    + log_sigmoid (- ((x - mu) * exp (- ls)))))
       (zip (log_softmax weight_logits) (zip means log_scales)))"

text \<open>The methods \<open>f\<close> and \<open>log_det\<close> of a layer of the given kind.\<close>

definition mixture_f :: "mixture_kind \<Rightarrow> vec \<Rightarrow> vec \<Rightarrow> vec \<Rightarrow> real \<Rightarrow> real" where
  "mixture_f kind weight_logits means log_scales x =
     (case kind of
        Gaussian ndtr \<Rightarrow> gaussian_f ndtr weight_logits means log_scales x
      | Logistic \<Rightarrow> logistic_f weight_logits means log_scales x)"

definition mixture_log_det :: "mixture_kind \<Rightarrow> vec \<Rightarrow> vec \<Rightarrow> vec \<Rightarrow> real \<Rightarrow> real" where
  "mixture_log_det kind weight_logits means log_scales x =
     (case kind of
        Gaussian ndtr \<Rightarrow> gaussian_log_det weight_logits means log_scales x
      | Logistic \<Rightarrow> logistic_log_det weight_logits means log_scales x)"

subsection \<open>Splitting theta\<close>

text \<open>
  Lines 61-65: \<open>n_components = (theta.shape[-1] - 2)//3\<close> with Python's floor division,
  then \<open>jnp.split\<close> at \<open>n, 2n, 3n, 3n + 1\<close>. A row shorter than two entries gives
  negative split points, on which the slicing behind \<open>jnp.split\<close> raises. The five
  parts are \<open>(weight_logits, means, log_scales, log_s, t)\<close>.
\<close>

definition n_components_of :: "real list \<Rightarrow> int" where
  "n_components_of theta = (int (length theta) - 2) div 3"

definition split_theta :: "real list \<Rightarrow> py_error + vec \<times> vec \<times> vec \<times> vec \<times> vec" where
  "split_theta theta =
     (let n = n_components_of theta in
      if n < 0 then Inl TypeError
      else let k = nat n in
        Inr (take k theta, take k (drop k theta), take k (drop (2 * k) theta),
             take 1 (drop (3 * k) theta), drop (3 * k + 1) theta))"

text \<open>The first exception of a list of results, or all the values.\<close>

fun sequence :: "(py_error + 'a) list \<Rightarrow> py_error + 'a list" where
  "sequence [] = Inr []"
| "sequence (Inl e # rs) = Inl e"
| "sequence (Inr a # rs) = (case sequence rs of Inl e \<Rightarrow> Inl e | Inr as \<Rightarrow> Inr (a # as))"

subsection \<open>Forward and inverse\<close>

text \<open>
  The input \<open>x\<close> is the list of its elements and \<open>theta\<close> holds one parameter row per
  element: this is the shape \<open>x.shape + (width,)\<close> that both callers pass, under which
  every \<open>in_axes\<close> entry of the \<open>vmap\<close> nest is 0 and the mixture is applied to each
  element with its own row. A different number of rows and elements makes \<open>vmap\<close>
  raise ValueError. With no component (a row of width 2 to 4) the reductions inside \<open>f\<close>
  and \<open>log_det\<close> run over an empty axis and raise ValueError.
\<close>

definition f_and_log_det ::
  "mixture_kind \<Rightarrow> vec \<Rightarrow> vec \<Rightarrow> vec \<Rightarrow> real \<Rightarrow> py_error + real \<times> real" where
  "f_and_log_det kind weight_logits means log_scales x =
     (if weight_logits = [] then Inl ValueError
      else Inr (mixture_f kind weight_logits means log_scales x,
                mixture_log_det kind weight_logits means log_scales x))"

text \<open>\<open>mixture_forward\<close>, lines 59-89.\<close>

definition mixture_forward ::
  "mixture_kind \<Rightarrow> vec \<Rightarrow> real list list \<Rightarrow> bool \<Rightarrow> py_error + vec \<times> real" where
  "mixture_forward kind x theta with_affine_coupling =
     (if length x \<noteq> length theta then Inl ValueError
      else case sequence (map split_theta theta) of
        Inl e \<Rightarrow> Inl e
      | Inr parts \<Rightarrow>
          (case sequence (map2 (\<lambda>(weight_logits, means, log_scales, log_s, t) xe.
                    f_and_log_det kind weight_logits means log_scales xe) parts x) of
             Inl e \<Rightarrow> Inl e
           | Inr zl \<Rightarrow>
               let z = map fst zl;
                   log_det = sum_list (map snd zl)
               in if with_affine_coupling then
                    let log_s' = map (\<lambda>(weight_logits, means, log_scales, log_s, t).
                                   1.5 * tanh (log_s ! 0)) parts;
                        t' = map (\<lambda>(weight_logits, means, log_scales, log_s, t). t ! 0) parts
                    in Inr (map2 (\<lambda>ze (ls, te). (ze - te) * exp (- ls)) z (zip log_s' t'),
                            log_det + - sum_list log_s')
                  else Inr (z, log_det)))"

text \<open>
  \<open>mixture_inverse\<close>, lines 91-135, with the fixed bracket of \<open>bisection_no_vmap\<close> and
  the default tolerance and iteration cap of \<open>bisection\<close>.
\<close>

definition bisection_no_vmap ::
  "mixture_kind \<Rightarrow> vec \<Rightarrow> vec \<Rightarrow> vec \<Rightarrow> real \<Rightarrow> py_error + real" where
  "bisection_no_vmap kind weight_logits means log_scales x =
     (if weight_logits = [] then Inl ValueError
      else Inr (bisection (mixture_f kind weight_logits means log_scales)
                  (0 - 1000) (0 + 1000) x default_atol default_max_iters))"

definition mixture_inverse ::
  "mixture_kind \<Rightarrow> vec \<Rightarrow> real list list \<Rightarrow> bool \<Rightarrow> py_error + vec \<times> real" where
  "mixture_inverse kind x theta with_affine_coupling =
     (if length x \<noteq> length theta then Inl ValueError
      else case sequence (map split_theta theta) of
        Inl e \<Rightarrow> Inl e
      | Inr parts \<Rightarrow>
          let log_s' = map (\<lambda>(weight_logits, means, log_scales, log_s, t).
                         1.5 * tanh (log_s ! 0)) parts;
              t' = map (\<lambda>(weight_logits, means, log_scales, log_s, t). t ! 0) parts;
              x1 = (if with_affine_coupling
                    then map2 (\<lambda>xe (ls, te). xe * exp ls + te) x (zip log_s' t') else x);
              elementwise_log_det = (if with_affine_coupling then - sum_list log_s' else 0)
          in (case sequence (map2 (\<lambda>(weight_logits, means, log_scales, log_s, t) xe.
                    bisection_no_vmap kind weight_logits means log_scales xe) parts x1) of
                Inl e \<Rightarrow> Inl e
              | Inr z \<Rightarrow>
                  Inr (z, sum_list (map2 (\<lambda>(weight_logits, means, log_scales, log_s, t) ze.
                              mixture_log_det kind weight_logits means log_scales ze) parts z)
                          + elementwise_log_det)))"

subsection \<open>The coupling layer\<close>

text \<open>
  \<open>CouplingMixtureCDF.get_out_shape\<close>, lines 230-233: the shape the conditioner has to
  produce for the transformed half \<open>x\<close>, whose first \<open>n_batch\<close> axes are batch axes.
\<close>

definition get_out_shape :: "nat \<Rightarrow> nat \<Rightarrow> nat list \<Rightarrow> py_error + nat list" where
  "get_out_shape n_batch n_components shape =
     (let x_shape = drop n_batch shape in
      if x_shape = [] then Inl IndexError
      else Inr (butlast x_shape @ [last x_shape * 3 * n_components]))"

text \<open>\<open>params.reshape(x.shape + (width,))\<close> on flat data: one row of \<open>width\<close> per element.\<close>

definition reshape_rows :: "nat \<Rightarrow> nat \<Rightarrow> real list \<Rightarrow> py_error + real list list" where
  "reshape_rows n_elems width flat =
     (if length flat \<noteq> n_elems * width then Inl TypeError
      else Inr (map (\<lambda>i. take width (drop (i * width) flat)) [0..<n_elems]))"

text \<open>
  \<open>CouplingMixtureCDF.transform\<close>, lines 235-249. With \<open>params = None\<close> the layer reads
  its own parameter \<open>theta\<close> of width \<open>3 * n_components + 2\<close>, here the argument
  \<open>own_theta\<close>; otherwise the conditioner's output is reshaped to width
  \<open>3 * n_components\<close>. \<open>self.forward\<close> and \<open>self.inverse\<close> were built by \<open>partial\<close> without
  \<open>with_affine_coupling\<close>, which keeps its default \<open>True\<close>.
\<close>

definition transform ::
  "mixture_kind \<Rightarrow> nat \<Rightarrow> real list list \<Rightarrow> vec \<Rightarrow> real list option \<Rightarrow> bool
     \<Rightarrow> py_error + vec \<times> real" where
  "transform kind n_components own_theta x params sample =
     (case (case params of
              None \<Rightarrow> Inr own_theta
            | Some ps \<Rightarrow> reshape_rows (length x) (3 * n_components) ps) of
        Inl e \<Rightarrow> Inl e
      | Inr theta \<Rightarrow>
          if \<not> sample then mixture_forward kind x theta True
          else mixture_inverse kind x theta True)"

subsection \<open>The layout of theta in the specification\<close>

text \<open>
  The specification describes a parameter row as a flat vector of length \<open>3K + 2\<close>:
  \<open>K\<close> unnormalized mixture weights, \<open>K\<close> means, \<open>K\<close> log-scales, one pre-affine
  log-scale and one pre-affine shift. These definitions follow that description, and
  not the code; the theorems compare \<open>split_theta\<close> and the two directions with them.
\<close>

definition spec_K :: "real list \<Rightarrow> nat" where
  "spec_K row = (length row - 2) div 3"

definition spec_weight_logits :: "real list \<Rightarrow> vec" where
  "spec_weight_logits row = take (spec_K row) row"

definition spec_means :: "real list \<Rightarrow> vec" where
  "spec_means row = take (spec_K row) (drop (spec_K row) row)"

definition spec_log_scales :: "real list \<Rightarrow> vec" where
  "spec_log_scales row = take (spec_K row) (drop (2 * spec_K row) row)"

definition spec_log_s :: "real list \<Rightarrow> real" where
  "spec_log_s row = row ! (3 * spec_K row)"

definition spec_t :: "real list \<Rightarrow> real" where
  "spec_t row = row ! (3 * spec_K row + 1)"

text \<open>The bounded log-scale \<open>1.5 * tanh(log_s)\<close> of the affine step.\<close>

definition bounded_log_s :: "real list \<Rightarrow> real" where
  "bounded_log_s row = 1.5 * tanh (spec_log_s row)"

text \<open>The mixture CDF and the mixture log-density of one element under its row.\<close>

definition mixture_cdf :: "mixture_kind \<Rightarrow> real list \<Rightarrow> real \<Rightarrow> real" where
  "mixture_cdf kind row xe =
     mixture_f kind (spec_weight_logits row) (spec_means row) (spec_log_scales row) xe"

definition mixture_log_density :: "mixture_kind \<Rightarrow> real list \<Rightarrow> real \<Rightarrow> real" where
  "mixture_log_density kind row xe =
     mixture_log_det kind (spec_weight_logits row) (spec_means row) (spec_log_scales row) xe"

subsection \<open>Auxiliary notions\<close>

text \<open>
  The five parts \<open>split_theta\<close> gives on a row of at least two entries, written with
  the layout of the specification.
\<close>

definition parts_of :: "real list \<Rightarrow> vec \<times> vec \<times> vec \<times> vec \<times> vec" where
  "parts_of row = (spec_weight_logits row, spec_means row, spec_log_scales row,
     [spec_log_s row], drop (3 * spec_K row + 1) row)"

text \<open>
  What \<open>mixture_inverse\<close> computes for one element: the affine step undone, then the
  solver on the mixture CDF of the element's row.
\<close>

definition inverse_elem :: "mixture_kind \<Rightarrow> bool \<Rightarrow> real list \<Rightarrow> real \<Rightarrow> real" where
  "inverse_elem kind with_affine_coupling row ze =
     bisection (mixture_cdf kind row) (0 - 1000) (0 + 1000)
       (if with_affine_coupling then ze * exp (bounded_log_s row) + spec_t row else ze)
       default_atol default_max_iters"

text \<open>The state of the solver after \<open>n\<close> runs of the loop body.\<close>

definition iterate :: "(real \<Rightarrow> real) \<Rightarrow> nat \<Rightarrow> bisect_val \<Rightarrow> bisect_val" where
  "iterate f n val = (bisection_body f ^^ n) val"



section \<open>Properties of the network constructors\<close>

text \<open>
  Claim C10. Constructing an \<open>MLP\<close> or a \<open>ConvBlock\<close> with \<open>nonlinearity="swish"\<close>
  raises NameError, for all other arguments; each of the other accepted names
  (\<open>relu\<close>, \<open>tanh\<close>, \<open>sigmoid\<close>, \<open>lipswish\<close>) constructs both; and \<open>RepeatedConv\<close>,
  given as many channel sizes as kernel shapes, constructs with \<open>"swish"\<close> and stores
  the swish function.
\<close>

theorem swish_raises_NameError:
  "MLP_init out_dim layer_sizes ''swish'' parameter_norm = Inl NameError
   \<and> ConvBlock_init out_channel hidden_channel parameter_norm norm_name ''swish'' use_bias
       = Inl NameError
   \<and> (\<forall>n \<in> {''relu'', ''tanh'', ''sigmoid'', ''lipswish''}.
         \<not> isl (MLP_init out_dim layer_sizes n parameter_norm)
         \<and> \<not> isl (ConvBlock_init out_channel hidden_channel parameter_norm norm_name n
                    use_bias))
   \<and> (length channel_sizes = length kernel_shapes \<longrightarrow>
        map_sum id rc_nonlinearity
          (RepeatedConv_init channel_sizes kernel_shapes kwargs normalization ''swish'')
        = Inr Swish)"
  by (simp add: MLP_init_def ConvBlock_init_def cb_select_nonlinearity_def
      RepeatedConv_init_def rc_select_nonlinearity_def)

theorem swish_raises_NameError_witness:
  "MLP_init 2 [4, 4] ''swish'' None = Inl NameError
   \<and> ConvBlock_init 3 8 None None ''swish'' True = Inl NameError
   \<and> \<not> isl (MLP_init 2 [4, 4] ''tanh'' None)
   \<and> \<not> isl (ConvBlock_init 3 8 None None ''tanh'' True)
   \<and> length [8, 3 :: nat] = length [(3, 3), (1, 1) :: nat \<times> nat]
   \<and> map_sum id rc_nonlinearity
        (RepeatedConv_init [8, 3] [(3, 3), (1, 1)] (block_kwargs None) None ''swish'')
      = Inr Swish"
  using swish_raises_NameError [of 2 "[4, 4]" None 3 8 None True "[8, 3]" "[(3, 3), (1, 1)]"
      "block_kwargs None" None]
  by simp

text \<open>
  Claim C7, as stated, fails for the normalization kind: \<open>"layer_norm"\<close> is none of the
  known kinds, and both \<open>RepeatedConv\<close> and \<open>ConvBlock\<close> construct with it.
\<close>

theorem unknown_normalization_accepted:
  "Some ''layer_norm'' \<notin> set known_normalizations
   \<and> \<not> isl (RepeatedConv_init [8] [(3, 3)] (block_kwargs None) (Some ''layer_norm'') ''relu'')
   \<and> \<not> isl (ConvBlock_init 3 8 None (Some ''layer_norm'') ''relu'' True)"
  by (simp add: known_normalizations_def RepeatedConv_init_def rc_select_nonlinearity_def
      ConvBlock_init_def cb_select_nonlinearity_def)

text \<open>
  Claim C7, amended. An unknown nonlinearity name makes the constructors of \<open>MLP\<close>,
  \<open>RepeatedConv\<close>, its two subclasses and \<open>ConvBlock\<close> raise AssertionError, and an
  unknown block type makes the constructor of \<open>CNN\<close> raise AssertionError. An unknown
  normalization kind raises nothing: \<open>RepeatedConv\<close> stores no normalization and
  \<open>ConvBlock\<close> creates no normalization layer. The constructor of \<open>CNN\<close> does not look
  at the nonlinearity or the normalization: with a known block type it constructs for
  every such name.
\<close>

theorem unknown_names_at_construction:
  "(nonlinearity \<notin> set accepted_nonlinearities \<longrightarrow>
      MLP_init out_dim layer_sizes nonlinearity parameter_norm = Inl AssertionError
      \<and> RepeatedConv_init channel_sizes kernel_shapes kwargs normalization nonlinearity
          = Inl AssertionError
      \<and> BottleneckConv_init hidden_channel out_channel parameter_norm normalization
          nonlinearity = Inl AssertionError
      \<and> ReverseBottleneckConv_init hidden_channel out_channel parameter_norm normalization
          nonlinearity = Inl AssertionError
      \<and> ConvBlock_init out_channel hidden_channel parameter_norm norm_name nonlinearity
          use_bias = Inl AssertionError)
   \<and> (block_type \<notin> set known_block_types \<longrightarrow>
        CNN_init n_blocks hidden_channel out_channel parameter_norm normalization
          nonlinearity' squeeze_excite block_type = Inl AssertionError)
   \<and> (normalization \<notin> set known_normalizations \<longrightarrow>
        length channel_sizes = length kernel_shapes \<longrightarrow>
        nonlinearity' \<in> set accepted_nonlinearities \<longrightarrow>
        map_sum id rc_norm
          (RepeatedConv_init channel_sizes kernel_shapes kwargs normalization nonlinearity')
        = Inr None)
   \<and> (norm_name \<notin> set known_normalizations \<longrightarrow>
        nonlinearity' \<in> set accepted_nonlinearities - {''swish''} \<longrightarrow>
        map_sum id cb_norm_layers
          (ConvBlock_init out_channel hidden_channel parameter_norm norm_name nonlinearity'
             use_bias)
        = Inr [])
   \<and> (block_type' \<in> set known_block_types \<longrightarrow>
        \<not> isl (CNN_init n_blocks hidden_channel out_channel parameter_norm normalization
                 nonlinearity squeeze_excite block_type'))"
  by (auto simp: accepted_nonlinearities_def known_block_types_def known_normalizations_def
      MLP_init_def RepeatedConv_init_def rc_select_nonlinearity_def rc_select_norm_def
      BottleneckConv_init_def ReverseBottleneckConv_init_def ConvBlock_init_def
      cb_select_nonlinearity_def cb_make_norms_def CNN_init_def)

theorem unknown_names_at_construction_witness:
  "''gelu'' \<notin> set accepted_nonlinearities
   \<and> MLP_init 2 [4, 4] ''gelu'' None = Inl AssertionError
   \<and> RepeatedConv_init [8] [(3, 3)] (block_kwargs None) (Some ''layer_norm'') ''gelu''
       = Inl AssertionError
   \<and> BottleneckConv_init 8 3 None (Some ''layer_norm'') ''gelu'' = Inl AssertionError
   \<and> ReverseBottleneckConv_init 8 3 None (Some ''layer_norm'') ''gelu'' = Inl AssertionError
   \<and> ConvBlock_init 3 8 None (Some ''layer_norm'') ''gelu'' True = Inl AssertionError
   \<and> ''resnet'' \<notin> set known_block_types
   \<and> CNN_init 2 8 3 None (Some ''layer_norm'') ''relu'' False ''resnet'' = Inl AssertionError
   \<and> Some ''layer_norm'' \<notin> set known_normalizations
   \<and> length [8 :: nat] = length [(3, 3) :: nat \<times> nat]
   \<and> ''relu'' \<in> set accepted_nonlinearities - {''swish''}
   \<and> map_sum id rc_norm
        (RepeatedConv_init [8] [(3, 3)] (block_kwargs None) (Some ''layer_norm'') ''relu'')
      = Inr None
   \<and> map_sum id cb_norm_layers (ConvBlock_init 3 8 None (Some ''layer_norm'') ''relu'' True)
      = Inr []
   \<and> ''bottleneck'' \<in> set known_block_types
   \<and> \<not> isl (CNN_init 2 8 3 None (Some ''layer_norm'') ''gelu'' False ''bottleneck'')"
  using unknown_names_at_construction [of "''gelu''" 2 "[4, 4]" None "[8]" "[(3, 3)]"
      "block_kwargs None" "Some ''layer_norm''" 8 3 "Some ''layer_norm''" True "''resnet''" 2
      "''relu''" False "''bottleneck''"]
  by (simp add: accepted_nonlinearities_def known_block_types_def known_normalizations_def)

section \<open>Properties of the checkpoint resume\<close>

lemma str_nat_nonempty: "str_nat n \<noteq> []"
  by (subst str_nat.simps) simp

lemma misc_path_neq_ckpt:
  "misc_path name \<noteq> ckpt_dir name it @ ''state_nif_leaves.p''"
proof
  assume "misc_path name = ckpt_dir name it @ ''state_nif_leaves.p''"
  then have "length (misc_path name) = length (ckpt_dir name it @ ''state_nif_leaves.p'')"
    by simp
  then show False
    by (simp add: misc_path_def ckpt_dir_def)
qed

lemma ckpt_dir_e5: "ckpt_dir ''e'' 5 = ''Experiments/e/5/''"
  by (simp add: ckpt_dir_def str_int_def)

lemma load_pytree_of_dict:
  "load_pytree [''f'' \<mapsto> Misc [(''key'', 7 :: nat), (''lr'', 2)]] (TreeDef 0 2) ''f''
     = Inr (PyTree (TreeDef 0 2) [Key ''key'', Key ''lr''] :: nat pytree)
   \<and> load_pytree [''f'' \<mapsto> Misc [(''key'', 7 :: nat)]] (TreeDef 0 2) ''f''
     = (Inl ValueError :: py_error + nat pytree)"
  by (simp add: load_pytree_def iter_pickled_def tree_unflatten_def)

text \<open>
  Claim C9. When training resumes from a checkpoint (\<open>start_it \<noteq> 0\<close>) and the resume
  block completes, the leaves of the NIF state are what iterating the content of the NF
  file \<open>state_nf_leaves.p\<close> yields, the same leaves the NF state gets (arranged in the
  structure of the NIF model's own state), and the NIF file \<open>state_nif_leaves.p\<close> is not
  read: the result is the same whatever that file holds, and also when it is absent.
\<close>

theorem resume_nif_state_from_nf_file:
  assumes "start_it0 \<noteq> 0"
    and "resume_block fs experiment_name start_it0 opt_nf0 opt_nif0 nf_model_state
           nif_model_state key0 = Inr v"
  shows "map_option iter_pickled (fs (ckpt_dir experiment_name start_it0 @ ''state_nf_leaves.p''))
           = Some (tree_leaves (state_nif v))
         \<and> tree_leaves (state_nif v) = tree_leaves (state_nf v)
         \<and> tree_structure (state_nif v) = tree_structure nif_model_state
         \<and> resume_block (fs(ckpt_dir experiment_name start_it0 @ ''state_nif_leaves.p'' := c))
             experiment_name start_it0 opt_nf0 opt_nif0 nf_model_state nif_model_state key0
           = Inr v"
proof -
  let ?d = "ckpt_dir experiment_name start_it0"
  let ?fs' = "fs(?d @ ''state_nif_leaves.p'' := c)"
  have same: "load_pytree ?fs' td (?d @ p) = load_pytree fs td (?d @ p)"
    if "p \<noteq> ''state_nif_leaves.p''" for td p
    using that by (simp add: load_pytree_def)
  have misc_same: "?fs' (misc_path experiment_name) = fs (misc_path experiment_name)"
    using misc_path_neq_ckpt [of experiment_name start_it0] by simp
  have indep: "resume_block ?fs' experiment_name start_it0 opt_nf0 opt_nif0 nf_model_state
      nif_model_state key0
    = resume_block fs experiment_name start_it0 opt_nf0 opt_nif0 nf_model_state
        nif_model_state key0"
    unfolding resume_block_def
    by (simp only: same [of "''opt_state_nf_leaves.p''", simplified]
        same [of "''opt_state_nif_leaves.p''", simplified]
        same [of "''state_nf_leaves.p''", simplified] misc_same)
  from assms have rest:
    "map_option iter_pickled (fs (?d @ ''state_nf_leaves.p''))
       = Some (tree_leaves (state_nif v))
     \<and> tree_leaves (state_nif v) = tree_leaves (state_nf v)
     \<and> tree_structure (state_nif v) = tree_structure nif_model_state"
    by (auto simp: resume_block_def load_pytree_def tree_unflatten_def
        split: sum.splits option.splits pickled.splits if_splits)
  have ind2: "resume_block ?fs' experiment_name start_it0 opt_nf0 opt_nif0 nf_model_state
      nif_model_state key0 = Inr v"
    using indep assms(2) by simp
  show ?thesis using rest ind2 by blast
qed

text \<open>
  The witness saves a checkpoint at iteration 5 in which the NF state has the leaf 3 and
  the NIF state the leaf 4, and resumes from it: both states come back with the leaf 3.
\<close>

theorem resume_nif_state_from_nf_file_witness:
  "(5::int) \<noteq> 0
   \<and> resume_block
        (save_checkpoint Map.empty ''e'' 5
           \<lparr>opt_state_nf = PyTree (TreeDef 0 1) [Array (1 :: nat)],
            opt_state_nif = PyTree (TreeDef 1 1) [Array 2],
            state_nf = PyTree (TreeDef 2 1) [Array 3],
            state_nif = PyTree (TreeDef 3 1) [Array 4],
            rng_key = 7 :: nat, misc = [], start_it = 0\<rparr>)
        ''e'' 5 (PyTree (TreeDef 0 1) [Array 0]) (PyTree (TreeDef 1 1) [Array 0])
        (PyTree (TreeDef 2 1) [Array 0]) (PyTree (TreeDef 3 1) [Array 0]) 0
      = Inr \<lparr>opt_state_nf = PyTree (TreeDef 0 1) [Array 1],
             opt_state_nif = PyTree (TreeDef 1 1) [Array 2],
             state_nf = PyTree (TreeDef 2 1) [Array 3],
             state_nif = PyTree (TreeDef 3 1) [Array 3],
             rng_key = 7, misc = [(''key'', 7)], start_it = 6\<rparr>
   \<and> save_checkpoint Map.empty ''e'' 5
           \<lparr>opt_state_nf = PyTree (TreeDef 0 1) [Array (1 :: nat)],
            opt_state_nif = PyTree (TreeDef 1 1) [Array 2],
            state_nf = PyTree (TreeDef 2 1) [Array 3],
            state_nif = PyTree (TreeDef 3 1) [Array 4],
            rng_key = 7 :: nat, misc = [], start_it = 0\<rparr>
        (ckpt_dir ''e'' 5 @ ''state_nf_leaves.p'') = Some (Leaves [Array 3])
   \<and> save_checkpoint Map.empty ''e'' 5
           \<lparr>opt_state_nf = PyTree (TreeDef 0 1) [Array (1 :: nat)],
            opt_state_nif = PyTree (TreeDef 1 1) [Array 2],
            state_nf = PyTree (TreeDef 2 1) [Array 3],
            state_nif = PyTree (TreeDef 3 1) [Array 4],
            rng_key = 7 :: nat, misc = [], start_it = 0\<rparr>
        (ckpt_dir ''e'' 5 @ ''state_nif_leaves.p'') = Some (Leaves [Array 4])"
proof -
  let ?v = "\<lparr>opt_state_nf = PyTree (TreeDef 0 1) [Array (1 :: nat)],
            opt_state_nif = PyTree (TreeDef 1 1) [Array 2],
            state_nf = PyTree (TreeDef 2 1) [Array 3],
            state_nif = PyTree (TreeDef 3 1) [Array 4],
            rng_key = 7 :: nat, misc = [], start_it = 0\<rparr>"
  let ?fs = "save_checkpoint Map.empty ''e'' 5 ?v"
  let ?r = "\<lparr>opt_state_nf = PyTree (TreeDef 0 1) [Array (1 :: nat)],
             opt_state_nif = PyTree (TreeDef 1 1) [Array 2],
             state_nf = PyTree (TreeDef 2 1) [Array 3],
             state_nif = PyTree (TreeDef 3 1) [Array 3],
             rng_key = 7 :: nat, misc = [(''key'', 7)], start_it = 6\<rparr>"
  have run: "resume_block ?fs ''e'' 5 (PyTree (TreeDef 0 1) [Array 0])
        (PyTree (TreeDef 1 1) [Array 0]) (PyTree (TreeDef 2 1) [Array 0])
        (PyTree (TreeDef 3 1) [Array 0]) 0 = Inr ?r"
    by (simp add: resume_block_def save_checkpoint_def savePytree_def load_pytree_def
        iter_pickled_def dict_get_def tree_unflatten_def ckpt_dir_e5 misc_path_def Let_def)
  have nif: "?fs (ckpt_dir ''e'' 5 @ ''state_nif_leaves.p'') = Some (Leaves [Array 4])"
    by (simp add: save_checkpoint_def savePytree_def ckpt_dir_e5 misc_path_def Let_def)
  have nf: "?fs (ckpt_dir ''e'' 5 @ ''state_nf_leaves.p'') = Some (Leaves [Array 3])"
    by (simp add: save_checkpoint_def savePytree_def ckpt_dir_e5 misc_path_def Let_def)
  have ne: "(5::int) \<noteq> 0" by simp
  from resume_nif_state_from_nf_file [OF ne run, of None] run nf nif show ?thesis
    by simp
qed

section \<open>Properties of the affine Gaussian priors\<close>



lemma einsum_broadcast:
  "einsum_ij_j [[1, 2], [3, 4]] [5] = Inr [15, 35]
   \<and> einsum_ij_j [[1], [3]] [5, 6] = Inr [11, 33]
   \<and> einsum_ij_j [[1, 2], [3, 4]] [5, 6, 7] = Inl ValueError"
  by (simp add: einsum_ij_j_def)




text \<open>The determinant on matrices of two and three rows.\<close>

lemma det_2: "det [[a, b], [c, d]] = a * d - b * c"
  by (simp add: upt_rec)

lemma det_3: "det [[a, b, c], [d, e, f], [g, h, i]]
   = a * (e * i - f * h) - b * (d * i - f * g) + c * (d * h - e * g)"
  by (simp add: upt_rec algebra_simps)




text \<open>
  Claim C8, as stated, fails on an input that is not one-dimensional: the assertion on
  \<open>ndim\<close> fails first, and the exception is an AssertionError, not a NameError.
\<close>

theorem full_cov_assertion_counterexample:
  "full_forward \<lparr>fp_A = [[1], [0]], fp_Sigma_chol_flat = [0, 0, 0]\<rparr> \<lparr>sigma = 1\<rparr>
     \<lparr>nd_shape = [2, 1], nd_data = [1, 2]\<rparr> = Inl AssertionError
   \<and> full_forward \<lparr>fp_A = [[1], [0]], fp_Sigma_chol_flat = [0, 0, 0]\<rparr> \<lparr>sigma = 1\<rparr>
     \<lparr>nd_shape = [2, 1], nd_data = [1, 2]\<rparr> \<noteq> Inl NameError"
  by (simp add: full_forward_def ndim_def)

text \<open>
  Claim C8, amended. Neither direction of the full-covariance prior ever returns a
  result. On a one-dimensional input the forward direction raises NameError, and so does
  the inverse direction when the input conforms with \<open>A\<close>; on an input that is not
  one-dimensional both directions raise AssertionError.
\<close>

theorem full_cov_never_returns:
  "isl (full_forward params state inputs)
   \<and> isl (full_inverse params state inputs key)
   \<and> (ndim inputs = 1 \<longrightarrow> full_forward params state inputs = Inl NameError)
   \<and> (ndim inputs \<noteq> 1 \<longrightarrow> full_forward params state inputs = Inl AssertionError
        \<and> full_inverse params state inputs key = Inl AssertionError)
   \<and> (ndim inputs = 1 \<longrightarrow>
        list_all (\<lambda>row. length row = length (nd_data inputs)) (fp_A params) \<longrightarrow>
        full_inverse params state inputs key = Inl NameError)"
  by (auto simp: full_forward_def full_inverse_def matvec_def split: sum.splits)

theorem full_cov_never_returns_witness:
  "ndim \<lparr>nd_shape = [1], nd_data = [3]\<rparr> = 1
   \<and> list_all (\<lambda>row. length row = length (nd_data \<lparr>nd_shape = [1], nd_data = [3]\<rparr>))
        (fp_A \<lparr>fp_A = [[1], [0]], fp_Sigma_chol_flat = [0, 0, 0]\<rparr>)
   \<and> full_forward \<lparr>fp_A = [[1], [0]], fp_Sigma_chol_flat = [0, 0, 0]\<rparr> \<lparr>sigma = 1\<rparr>
        \<lparr>nd_shape = [1], nd_data = [3]\<rparr> = Inl NameError
   \<and> full_inverse \<lparr>fp_A = [[1], [0]], fp_Sigma_chol_flat = [0, 0, 0]\<rparr> \<lparr>sigma = 1\<rparr>
        \<lparr>nd_shape = [1], nd_data = [3]\<rparr> (None :: nat option) = Inl NameError
   \<and> ndim \<lparr>nd_shape = [2, 1], nd_data = [1, 2]\<rparr> \<noteq> 1
   \<and> full_inverse \<lparr>fp_A = [[1], [0]], fp_Sigma_chol_flat = [0, 0, 0]\<rparr> \<lparr>sigma = 1\<rparr>
        \<lparr>nd_shape = [2, 1], nd_data = [1, 2]\<rparr> (None :: nat option) = Inl AssertionError"
  using full_cov_never_returns [of "\<lparr>fp_A = [[1], [0]], fp_Sigma_chol_flat = [0, 0, 0]\<rparr>"
      "\<lparr>sigma = 1\<rparr>" "\<lparr>nd_shape = [1], nd_data = [3]\<rparr>" "None :: nat option"]
    full_cov_never_returns [of "\<lparr>fp_A = [[1], [0]], fp_Sigma_chol_flat = [0, 0, 0]\<rparr>"
      "\<lparr>sigma = 1\<rparr>" "\<lparr>nd_shape = [2, 1], nd_data = [1, 2]\<rparr>" "None :: nat option"]
  by (simp add: ndim_def)

section \<open>Properties of the coupling layer\<close>

lemma get_out_shape_width:
  "drop n_batch shape \<noteq> [] \<Longrightarrow>
   get_out_shape n_batch K shape
     = Inr (butlast (drop n_batch shape) @ [last (drop n_batch shape) * 3 * K])"
  by (simp add: get_out_shape_def Let_def)

lemma n_components_of_3K:
  assumes "1 \<le> K" and "length row = 3 * K"
  shows "n_components_of row = int K - 1"
  using assms by (simp add: n_components_of_def)

text \<open>
  A row of width \<open>3 * K\<close>, as the conditioner produces it for a layer declared with
  \<open>K\<close> components, is split into \<open>K - 1\<close> weight logits, means and log-scales; its
  last three entries become the affine log-scale, the shift, and one unused value.
\<close>

lemma split_theta_3K:
  assumes "1 \<le> K" and "length row = 3 * K"
  shows "\<exists>w m s ls t. split_theta row = Inr (w, m, s, ls, t)
     \<and> length w = K - 1 \<and> length m = K - 1 \<and> length s = K - 1
     \<and> ls = [row ! (3 * K - 3)] \<and> t = [row ! (3 * K - 2), row ! (3 * K - 1)]"
proof -
  have n: "n_components_of row = int (K - 1)"
    using n_components_of_3K [OF assms] assms(1) by simp
  have k: "nat (int (K - 1)) = K - 1" by simp
  have l1: "take 1 (drop (3 * (K - 1)) row) = [row ! (3 * K - 3)]"
    using assms by (simp add: take_Suc_conv_app_nth diff_mult_distrib2)
  have "drop (3 * (K - 1) + 1) row = [row ! (3 * K - 2), row ! (3 * K - 1)]"
  proof (rule nth_equalityI)
    show "length (drop (3 * (K - 1) + 1) row) = length [row ! (3 * K - 2), row ! (3 * K - 1)]"
      using assms by simp
  next
    fix i assume "i < length (drop (3 * (K - 1) + 1) row)"
    then have "i < 2" using assms by simp
    then consider "i = 0" | "i = 1" by linarith
    then show "drop (3 * (K - 1) + 1) row ! i = [row ! (3 * K - 2), row ! (3 * K - 1)] ! i"
    proof cases
      case 1
      have "3 * (K - 1) + 1 = 3 * K - 2" using assms(1) by simp
      then show ?thesis using 1 assms by simp
    next
      case 2
      have "3 * (K - 1) + 1 + 1 = 3 * K - 1" using assms(1) by simp
      then show ?thesis using 2 assms by (simp add: add.commute)
    qed
  qed
  then show ?thesis
    using assms l1 by (simp add: split_theta_def n k Let_def del: of_nat_diff)
qed

text \<open>
  Claim C3, at a layer declared with \<open>K = 2\<close> components and one element: the
  conditioner's six values are reshaped to one row of width \<open>3 * 2\<close>, and the mixture
  splits that row into one weight logit, one mean, one log-scale, the affine log-scale
  4 and the pair 5, 6, of which 5 is the shift: not into two of each.
\<close>

theorem coupling_theta_split_K2:
  "reshape_rows 1 (3 * 2) [1, 2, 3, 4, 5, 6] = Inr [[1, 2, 3, 4, 5, 6]]
   \<and> split_theta [1, 2, 3, 4, 5, 6] = Inr ([1], [2], [3], [4], [5, 6])"
  by (simp add: reshape_rows_def split_theta_def n_components_of_def Let_def)

section \<open>Properties of the mixture bijections\<close>

subsection \<open>The split of theta and the two directions, element by element\<close>

lemma sequence_map_Inr_id: "sequence (map Inr ys) = Inr ys"
  by (induction ys) auto

lemma sequence_Inr_D: "sequence rs = Inr ys \<Longrightarrow> rs = map Inr ys"
proof (induction rs arbitrary: ys)
  case Nil
  then show ?case by auto
next
  case (Cons r rs)
  show ?case
  proof (cases r)
    case (Inl e)
    then show ?thesis using Cons.prems by simp
  next
    case (Inr a)
    then obtain as where "sequence rs = Inr as" "ys = a # as"
      using Cons.prems by (auto split: sum.splits)
    then show ?thesis using Cons.IH Inr by simp
  qed
qed

lemma sequence_Inr_iff: "sequence rs = Inr ys \<longleftrightarrow> rs = map Inr ys"
  using sequence_Inr_D sequence_map_Inr_id by blast

lemma sequence_map_Inr: "sequence (map (\<lambda>a. Inr (g a)) xs) = Inr (map g xs)"
  by (simp add: sequence_Inr_iff comp_def)

lemma sequence_map_cong_Inr:
  assumes "\<And>a. a \<in> set xs \<Longrightarrow> f a = Inr (g a)"
  shows "sequence (map f xs) = Inr (map g xs)"
proof -
  have eq: "map f xs = map (\<lambda>a. Inr (g a)) xs"
    using assms by (intro map_cong) auto
  show ?thesis unfolding eq by (rule sequence_map_Inr)
qed

lemma split_theta_spec:
  assumes "2 \<le> length row"
  shows "split_theta row = Inr (spec_weight_logits row, spec_means row, spec_log_scales row,
           [spec_log_s row], drop (3 * spec_K row + 1) row)"
proof -
  have n: "n_components_of row = int (spec_K row)"
    using assms by (simp add: n_components_of_def spec_K_def zdiv_int of_nat_diff)
  have "3 * spec_K row + 2 \<le> length row"
    using assms unfolding spec_K_def by simp
  then have "take 1 (drop (3 * spec_K row) row) = [spec_log_s row]"
    by (simp add: take_Suc_conv_app_nth spec_log_s_def)
  then show ?thesis
    by (simp add: split_theta_def n Let_def spec_weight_logits_def spec_means_def
        spec_log_scales_def)
qed

lemma split_theta_t_hd:
  assumes "2 \<le> length row"
  shows "drop (3 * spec_K row + 1) row ! 0 = spec_t row"
proof -
  have "3 * spec_K row + 2 \<le> length row"
    using assms unfolding spec_K_def by simp
  then show ?thesis by (simp add: spec_t_def)
qed

lemma split_theta_short: "length row < 2 \<Longrightarrow> split_theta row = Inl TypeError"
  by (auto simp: split_theta_def n_components_of_def Let_def)

lemma spec_parts_length:
  assumes "2 \<le> length row"
  shows "length (spec_weight_logits row) = spec_K row"
    and "length (spec_means row) = spec_K row"
    and "length (spec_log_scales row) = spec_K row"
proof -
  have "3 * spec_K row + 2 \<le> length row"
    using assms unfolding spec_K_def by simp
  then show "length (spec_weight_logits row) = spec_K row"
    and "length (spec_means row) = spec_K row"
    and "length (spec_log_scales row) = spec_K row"
    by (simp_all add: spec_weight_logits_def spec_means_def spec_log_scales_def)
qed

lemma spec_K_pos: "5 \<le> length row \<Longrightarrow> 1 \<le> spec_K row"
  by (simp add: spec_K_def)

lemma split_all:
  assumes "\<forall>row\<in>set theta. 2 \<le> length row"
  shows "sequence (map split_theta theta) = Inr (map parts_of theta)"
proof -
  have eq: "map split_theta theta = map (\<lambda>row. Inr (parts_of row)) theta"
    using assms by (intro map_cong) (auto simp: split_theta_spec parts_of_def)
  show ?thesis unfolding eq by (rule sequence_map_Inr)
qed

lemma split_all_D:
  assumes "sequence (map split_theta theta) = Inr parts"
  shows "(\<forall>row\<in>set theta. 2 \<le> length row) \<and> parts = map parts_of theta"
proof -
  have eq: "map split_theta theta = map Inr parts"
    using assms by (rule sequence_Inr_D)
  have "2 \<le> length row" if "row \<in> set theta" for row
  proof (rule ccontr)
    assume "\<not> 2 \<le> length row"
    then have "split_theta row = Inl TypeError" by (simp add: split_theta_short)
    moreover have "split_theta row \<in> set (map Inr parts)"
      using that eq [symmetric] by auto
    ultimately show False by auto
  qed
  then have all: "\<forall>row\<in>set theta. 2 \<le> length row" by blast
  from split_all [OF all] assms have "parts = map parts_of theta" by simp
  with all show ?thesis by blast
qed

lemma zip_parts:
  "map2 (\<lambda>(weight_logits, means, log_scales, log_s, t) xe. g weight_logits means log_scales xe)
     (map parts_of theta) x
   = map2 (\<lambda>row xe. g (spec_weight_logits row) (spec_means row) (spec_log_scales row) xe)
       theta x"
  by (simp add: zip_map1 parts_of_def case_prod_unfold comp_def)

lemma log_s_parts:
  "map (\<lambda>(weight_logits, means, log_scales, log_s, t). 1.5 * tanh (log_s ! 0))
     (map parts_of theta) = map bounded_log_s theta"
  by (simp add: parts_of_def bounded_log_s_def comp_def)

lemma t_parts:
  assumes "\<forall>row\<in>set theta. 2 \<le> length row"
  shows "map (\<lambda>(weight_logits, means, log_scales, log_s, t). t ! 0) (map parts_of theta)
     = map spec_t theta"
  using assms by (auto simp: parts_of_def split_theta_t_hd [simplified])

lemma f_and_log_det_all:
  assumes "\<forall>row\<in>set theta. 5 \<le> length row"
  shows "sequence (map2 (\<lambda>row xe. f_and_log_det kind (spec_weight_logits row) (spec_means row)
            (spec_log_scales row) xe) theta x)
    = Inr (map2 (\<lambda>row xe. (mixture_cdf kind row xe, mixture_log_density kind row xe)) theta x)"
proof -
  have ne: "spec_weight_logits row \<noteq> []" if "row \<in> set theta" for row
  proof -
    have "5 \<le> length row" using assms that by blast
    then have "length (spec_weight_logits row) = spec_K row" "1 \<le> spec_K row"
      using spec_parts_length(1) [of row] spec_K_pos [of row] by simp_all
    then show ?thesis by auto
  qed
  show ?thesis
    unfolding case_prod_unfold
    by (rule sequence_map_cong_Inr)
       (use ne in \<open>auto simp: f_and_log_det_def mixture_cdf_def mixture_log_density_def
          dest: set_zip_leftD\<close>)
qed


lemma rows_wide:
  assumes "2 \<le> length row" and "spec_weight_logits row \<noteq> []"
  shows "5 \<le> length row"
proof -
  have "length (spec_weight_logits row) = spec_K row"
    using assms(1) by (rule spec_parts_length(1))
  then have "0 < spec_K row" using assms(2) by (cases "spec_weight_logits row") auto
  then show ?thesis by (simp add: spec_K_def div_greater_zero_iff)
qed

lemma rows_wide_nonempty:
  assumes "5 \<le> length row"
  shows "spec_weight_logits row \<noteq> []"
proof -
  have "length (spec_weight_logits row) = spec_K row" "1 \<le> spec_K row"
    using spec_parts_length(1) [of row] spec_K_pos [of row] assms by simp_all
  then show ?thesis by auto
qed

lemma mixture_cdf_fun:
  "mixture_f kind (spec_weight_logits row) (spec_means row) (spec_log_scales row)
     = mixture_cdf kind row"
  by (rule ext) (simp add: mixture_cdf_def)

lemma mixture_forward_value:
  assumes "length x = length theta" and "\<forall>row\<in>set theta. 5 \<le> length row"
  shows "mixture_forward kind x theta with_affine_coupling
    = Inr (if with_affine_coupling
           then (map2 (\<lambda>row xe. (mixture_cdf kind row xe - spec_t row) * exp (- bounded_log_s row))
                   theta x,
                 (\<Sum>(row, xe)\<leftarrow>zip theta x. mixture_log_density kind row xe)
                   + - (\<Sum>row\<leftarrow>theta. bounded_log_s row))
           else (map2 (mixture_cdf kind) theta x,
                 (\<Sum>(row, xe)\<leftarrow>zip theta x. mixture_log_density kind row xe)))"
proof -
  have two: "\<forall>row\<in>set theta. 2 \<le> length row" using assms(2) by auto
  have z: "map2 (\<lambda>ze (ls, te). (ze - te) * exp (- ls))
        (map fst (map2 (\<lambda>row xe. (mixture_cdf kind row xe, mixture_log_density kind row xe))
           theta x))
        (zip (map bounded_log_s theta) (map spec_t theta))
     = map2 (\<lambda>row xe. (mixture_cdf kind row xe - spec_t row) * exp (- bounded_log_s row))
         theta x"
    using assms(1) by (intro nth_equalityI) auto
  have z0: "map fst (map2 (\<lambda>row xe. (mixture_cdf kind row xe, mixture_log_density kind row xe))
           theta x) = map2 (mixture_cdf kind) theta x"
    by (simp add: comp_def case_prod_unfold)
  have ld: "sum_list (map snd (map2 (\<lambda>row xe. (mixture_cdf kind row xe,
        mixture_log_density kind row xe)) theta x))
     = (\<Sum>(row, xe)\<leftarrow>zip theta x. mixture_log_density kind row xe)"
    by (simp add: comp_def case_prod_unfold)
  show ?thesis
  proof (cases with_affine_coupling)
    case True
    show ?thesis
      unfolding mixture_forward_def
      by (simp only: True assms(1) split_all [OF two] zip_parts f_and_log_det_all [OF assms(2)]
          log_s_parts t_parts [OF two] z ld Let_def sum.case if_True if_False simp_thms)
  next
    case False
    show ?thesis
      unfolding mixture_forward_def
      by (simp only: False assms(1) split_all [OF two] zip_parts f_and_log_det_all [OF assms(2)]
          z0 ld Let_def sum.case if_True if_False simp_thms)
  qed
qed

lemma bisection_all:
  assumes "\<forall>row\<in>set theta. 5 \<le> length row"
  shows "sequence (map2 (\<lambda>row xe. bisection_no_vmap kind (spec_weight_logits row)
            (spec_means row) (spec_log_scales row) xe) theta x1)
    = Inr (map2 (\<lambda>row xe. bisection (mixture_cdf kind row) (0 - 1000) (0 + 1000) xe
             default_atol default_max_iters) theta x1)"
  unfolding case_prod_unfold
  by (rule sequence_map_cong_Inr)
     (use assms rows_wide_nonempty in \<open>auto simp: bisection_no_vmap_def mixture_cdf_fun
        dest!: set_zip_leftD\<close>)

lemma mixture_inverse_value:
  assumes "length z = length theta" and "\<forall>row\<in>set theta. 5 \<le> length row"
  shows "mixture_inverse kind z theta with_affine_coupling
    = Inr (map2 (inverse_elem kind with_affine_coupling) theta z,
           (\<Sum>(row, xe)\<leftarrow>zip theta (map2 (inverse_elem kind with_affine_coupling) theta z).
               mixture_log_density kind row xe)
           + (if with_affine_coupling then - (\<Sum>row\<leftarrow>theta. bounded_log_s row) else 0))"
proof -
  have two: "\<forall>row\<in>set theta. 2 \<le> length row" using assms(2) by auto
  have x1: "map2 (\<lambda>row xe. bisection (mixture_cdf kind row) (0 - 1000) (0 + 1000) xe
             default_atol default_max_iters) theta
          (map2 (\<lambda>xe (ls, te). xe * exp ls + te) z
             (zip (map bounded_log_s theta) (map spec_t theta)))
     = map2 (inverse_elem kind True) theta z"
    using assms(1) by (intro nth_equalityI) (auto simp: inverse_elem_def)
  have x0: "map2 (\<lambda>row xe. bisection (mixture_cdf kind row) (0 - 1000) (0 + 1000) xe
             default_atol default_max_iters) theta z
     = map2 (inverse_elem kind False) theta z"
    by (simp add: inverse_elem_def)
  have ld: "map2 (\<lambda>row ze. mixture_log_det kind (spec_weight_logits row) (spec_means row)
                (spec_log_scales row) ze) theta zs
      = map2 (mixture_log_density kind) theta zs" for zs
    by (simp add: mixture_log_density_def)
  show ?thesis
  proof (cases with_affine_coupling)
    case True
    show ?thesis
      unfolding mixture_inverse_def
      by (simp only: True assms(1) split_all [OF two] zip_parts bisection_all [OF assms(2)]
          log_s_parts t_parts [OF two] x1 ld Let_def sum.case if_True if_False simp_thms)
  next
    case False
    show ?thesis
      unfolding mixture_inverse_def
      by (simp only: False assms(1) split_all [OF two] zip_parts bisection_all [OF assms(2)]
          x0 ld Let_def sum.case if_True if_False simp_thms)
  qed
qed

lemma mixture_inverse_Inr_D:
  assumes "mixture_inverse kind z theta with_affine_coupling = Inr r"
  shows "length z = length theta \<and> (\<forall>row\<in>set theta. 5 \<le> length row)"
proof -
  have len: "length z = length theta"
    using assms by (auto simp: mixture_inverse_def split: if_splits)
  obtain parts where parts: "sequence (map split_theta theta) = Inr parts"
    using assms len by (auto simp: mixture_inverse_def split: sum.splits)
  have two: "\<forall>row\<in>set theta. 2 \<le> length row" and p: "parts = map parts_of theta"
    using split_all_D [OF parts] by auto
  define x1 where "x1 = (if with_affine_coupling
      then map2 (\<lambda>xe (ls, te). xe * exp ls + te) z
             (zip (map bounded_log_s theta) (map spec_t theta)) else z)"
  have l1: "length x1 = length theta" using len by (simp add: x1_def)
  have unfolded: "mixture_inverse kind z theta with_affine_coupling
    = (case sequence (map2 (\<lambda>row xe. bisection_no_vmap kind (spec_weight_logits row)
            (spec_means row) (spec_log_scales row) xe) theta x1) of
         Inl e \<Rightarrow> Inl e
       | Inr zs \<Rightarrow> Inr (zs, sum_list (map2 (\<lambda>row ze. mixture_log_det kind
             (spec_weight_logits row) (spec_means row) (spec_log_scales row) ze) theta zs)
           + (if with_affine_coupling then - sum_list (map bounded_log_s theta) else 0)))"
    unfolding mixture_inverse_def x1_def
    by (simp only: len parts p zip_parts log_s_parts t_parts [OF two] Let_def
        sum.case if_True if_False simp_thms)
  obtain zs where seq: "sequence (map2 (\<lambda>row xe. bisection_no_vmap kind (spec_weight_logits row)
            (spec_means row) (spec_log_scales row) xe) theta x1) = Inr zs"
    using assms unfolding unfolded by (auto split: sum.splits)
  have eq: "map2 (\<lambda>row xe. bisection_no_vmap kind (spec_weight_logits row)
            (spec_means row) (spec_log_scales row) xe) theta x1 = map Inr zs"
    using seq by (rule sequence_Inr_D)
  have "5 \<le> length row" if r: "row \<in> set theta" for row
  proof -
    obtain i where i: "i < length theta" "theta ! i = row"
      using r by (auto simp: in_set_conv_nth)
    have "map2 (\<lambda>row xe. bisection_no_vmap kind (spec_weight_logits row)
            (spec_means row) (spec_log_scales row) xe) theta x1 ! i = map Inr zs ! i"
      using eq by simp
    moreover have "length zs = length theta"
      using arg_cong [OF eq, of length] l1 by simp
    ultimately have "bisection_no_vmap kind (spec_weight_logits row)
            (spec_means row) (spec_log_scales row) (x1 ! i) = Inr (zs ! i)"
      using i l1 by simp
    then have "spec_weight_logits row \<noteq> []"
      by (auto simp: bisection_no_vmap_def split: if_splits)
    then show ?thesis using rows_wide two r by blast
  qed
  then show ?thesis using len by blast
qed

subsection \<open>The bisection loop\<close>

lemma iterate_0 [simp]: "iterate f 0 val = val"
  by (simp add: iterate_def)

lemma iterate_Suc: "iterate f (Suc n) val = bisection_body f (iterate f n val)"
  by (simp add: iterate_def)

lemma iterate_Suc': "iterate f (Suc n) val = iterate f n (bisection_body f val)"
  by (simp add: iterate_def funpow_swap1)

lemma while_loop_iterate:
  "\<exists>n. while_loop f atol max_iters val = iterate f n val
     \<and> \<not> cond_fun atol max_iters (iterate f n val)
     \<and> (\<forall>k<n. cond_fun atol max_iters (iterate f k val))"
proof (induction f atol max_iters val rule: while_loop.induct)
  case (1 f atol max_iters val)
  show ?case
  proof (cases "cond_fun atol max_iters val")
    case True
    from "1.IH" [OF True] obtain n where n:
      "while_loop f atol max_iters (bisection_body f val) = iterate f n (bisection_body f val)"
      "\<not> cond_fun atol max_iters (iterate f n (bisection_body f val))"
      "\<forall>k<n. cond_fun atol max_iters (iterate f k (bisection_body f val))"
      by blast
    have "while_loop f atol max_iters val = iterate f (Suc n) val"
      using True n(1) by (subst while_loop.simps) (simp add: iterate_Suc')
    moreover have "\<not> cond_fun atol max_iters (iterate f (Suc n) val)"
      using n(2) by (simp add: iterate_Suc')
    moreover have "\<forall>k<Suc n. cond_fun atol max_iters (iterate f k val)"
    proof (intro allI impI)
      fix k assume "k < Suc n"
      then show "cond_fun atol max_iters (iterate f k val)"
        using True n(3) by (cases k) (auto simp: iterate_Suc')
    qed
    ultimately show ?thesis by blast
  next
    case False
    then have "while_loop f atol max_iters val = iterate f 0 val"
      by (subst while_loop.simps) simp
    then show ?thesis using False by (intro exI [of _ 0]) simp
  qed
qed

lemma iterate_i [simp]: "v_i (iterate f n val) = v_i val + n"
  by (induction n) (simp_all add: iterate_Suc bisection_body_def Let_def)

lemma iterate_x [simp]: "v_x (iterate f n val) = v_x val"
  by (induction n) (simp_all add: iterate_Suc bisection_body_def Let_def)

lemma iterate_current:
  "0 < n \<Longrightarrow> v_current_x (iterate f n val) = f (v_current_z (iterate f n val))
     \<and> v_dx (iterate f n val) = f (v_current_z (iterate f n val)) - v_x val"
  by (cases n) (simp_all add: iterate_Suc bisection_body_def Let_def)

lemma init_fields [simp]:
  "v_i (bisection_init f lower upper x) = 0"
  "v_x (bisection_init f lower upper x) = x"
  "v_dx (bisection_init f lower upper x) = 10"
  "v_current_z (bisection_init f lower upper x) = 0"
  "v_current_x (bisection_init f lower upper x) = f 0"
  "v_lower (bisection_init f lower upper x) = lower"
  "v_upper (bisection_init f lower upper x) = upper"
  by (simp_all add: bisection_init_def)

text \<open>What the loop of the solver does, started from the initial state.\<close>

lemma bisection_loop_run:
  assumes "atol < 10"
  shows "\<exists>n. while_loop f atol max_iters (bisection_init f lower upper x)
                = iterate f n (bisection_init f lower upper x)
     \<and> 1 \<le> n
     \<and> (n \<le> max_iters \<longrightarrow>
          \<bar>f (v_current_z (iterate f n (bisection_init f lower upper x))) - x\<bar> \<le> atol)
     \<and> (max_iters < n \<or>
          \<bar>f (v_current_z (iterate f n (bisection_init f lower upper x))) - x\<bar> \<le> atol)
     \<and> (\<forall>k. 1 \<le> k \<and> k < n \<longrightarrow> k \<le> max_iters \<and>
          atol < \<bar>f (v_current_z (iterate f k (bisection_init f lower upper x))) - x\<bar>)"
proof -
  let ?init = "bisection_init f lower upper x"
  obtain n where n: "while_loop f atol max_iters ?init = iterate f n ?init"
    "\<not> cond_fun atol max_iters (iterate f n ?init)"
    "\<forall>k<n. cond_fun atol max_iters (iterate f k ?init)"
    using while_loop_iterate by blast
  have c0: "cond_fun atol max_iters ?init"
    using assms by (simp add: cond_fun_def)
  have pos: "1 \<le> n"
  proof (rule ccontr)
    assume "\<not> 1 \<le> n"
    then have "n = 0" by simp
    with n(2) c0 show False by simp
  qed
  have stop: "max_iters < n \<or> \<bar>f (v_current_z (iterate f n ?init)) - x\<bar> \<le> atol"
    using n(2) pos iterate_current [of n f ?init] by (auto simp: cond_fun_def)
  have before: "k \<le> max_iters \<and> atol < \<bar>f (v_current_z (iterate f k ?init)) - x\<bar>"
    if "1 \<le> k" "k < n" for k
    using n(3) that iterate_current [of k f ?init] by (auto simp: cond_fun_def)
  show ?thesis
    using n(1) pos stop before by (intro exI [of _ n]) auto
qed

subsection \<open>Convergence on a strictly increasing function\<close>








lemma log_sigmoid_neg: "log_sigmoid v < 0"
proof -
  have "1 < 1 + exp (- v)" by simp
  then have "0 < ln (1 + exp (- v))" by (rule ln_gt_zero)
  then show ?thesis by (simp add: log_sigmoid_def)
qed

lemma exp_log_sigmoid: "exp (log_sigmoid v) = 1 / (1 + exp (- v))"
proof -
  have "0 < 1 + exp (- v)" by (simp add: add_pos_pos)
  then show ?thesis by (simp add: log_sigmoid_def exp_minus inverse_eq_divide)
qed

lemma sum_list_exp_pos: "xs \<noteq> [] \<Longrightarrow> 0 < (\<Sum>v\<leftarrow>xs. exp (g v :: real))"
proof (cases xs)
  case Nil
  assume "xs \<noteq> []"
  with Nil show ?thesis by simp
next
  case (Cons a as)
  have "0 \<le> (\<Sum>v\<leftarrow>as. exp (g v))" by (rule sum_list_nonneg) auto
  then show ?thesis using Cons by (simp add: add_pos_nonneg)
qed

lemma exp_logsumexp: "a \<noteq> [] \<Longrightarrow> exp (logsumexp a) = (\<Sum>v\<leftarrow>a. exp v)"
  using sum_list_exp_pos [of a "\<lambda>v. v"] by (simp add: logsumexp_def)

lemma logistic_f_sum:
  assumes "zip (log_softmax w) (zip m s) \<noteq> []"
  shows "logistic_f w m s x
    = (\<Sum>(wl, mu, ls)\<leftarrow>zip (log_softmax w) (zip m s).
         exp wl * (1 / (1 + exp (- ((x - mu) * exp (- ls))))))"
proof -
  have "logistic_f w m s x
    = (\<Sum>v\<leftarrow>map (\<lambda>(wl, mu, ls). wl + log_sigmoid ((x - mu) * exp (- ls)))
         (zip (log_softmax w) (zip m s)). exp v)"
    unfolding logistic_f_def using assms by (intro exp_logsumexp) simp
  also have "\<dots> = (\<Sum>(wl, mu, ls)\<leftarrow>zip (log_softmax w) (zip m s).
         exp wl * (1 / (1 + exp (- ((x - mu) * exp (- ls))))))"
    by (simp add: comp_def case_prod_unfold exp_add exp_log_sigmoid)
  finally show ?thesis .
qed







subsection \<open>One logistic component with all parameters zero\<close>

text \<open>
  On the row \<open>[0, 0, 0, 0, 0]\<close> the logistic mixture CDF is the logistic function and
  the affine step is the identity.
\<close>

lemma row0_layout:
  "spec_K [0, 0, 0, 0, 0] = 1"
  "spec_weight_logits [0, 0, 0, 0, 0] = [0]"
  "spec_means [0, 0, 0, 0, 0] = [0]"
  "spec_log_scales [0, 0, 0, 0, 0] = [0]"
  "spec_log_s [0, 0, 0, 0, 0] = 0"
  "spec_t [0, 0, 0, 0, 0] = 0"
  "bounded_log_s [0, 0, 0, 0, 0] = 0"
  by (simp_all add: spec_K_def spec_weight_logits_def spec_means_def spec_log_scales_def
      spec_log_s_def spec_t_def bounded_log_s_def)

lemma log_softmax_single: "log_softmax [0] = [0]"
  by (simp add: log_softmax_def logsumexp_def)

lemma logistic_cdf_row0: "mixture_cdf Logistic [0, 0, 0, 0, 0] v = 1 / (1 + exp (- v))"
proof -
  have "logistic_f [0] [0] [0] v = exp (log_sigmoid v)"
    by (simp add: logistic_f_def log_softmax_single logsumexp_def)
  then show ?thesis
    by (simp add: mixture_cdf_def row0_layout mixture_f_def exp_log_sigmoid)
qed

lemma logistic_density_row0:
  "mixture_log_density Logistic [0, 0, 0, 0, 0] v = log_sigmoid v + log_sigmoid (- v)"
  by (simp add: mixture_log_density_def row0_layout mixture_log_det_def logistic_log_det_def
      log_softmax_single logsumexp_def)

lemma log_sigmoid_0: "log_sigmoid 0 = - ln 2"
  by (simp add: log_sigmoid_def)


lemma sigmoid_half: "1 / (1 + exp (- 0 :: real)) = 1 / 2"
  by simp

lemma exp_40_large: "(10 :: real) ^ 8 \<le> exp 40"
proof -
  have "(2 :: real) \<le> exp 1" using exp_ge_add_one_self [of 1] by simp
  then have "(2 :: real) ^ 40 \<le> exp 1 ^ 40" by (intro power_mono) simp_all
  also have "exp 1 ^ 40 = exp (40 :: real)"
    using exp_of_nat_mult [of 40 "1 :: real"] by simp
  finally show ?thesis by simp
qed

lemma sigmoid_mono:
  fixes u v :: real
  assumes "u \<le> v"
  shows "1 / (1 + exp (- u)) \<le> 1 / (1 + exp (- v :: real))"
proof -
  have pu: "0 < 1 + exp (- u)" by (simp add: add_pos_pos)
  have pv: "0 < 1 + exp (- v)" by (simp add: add_pos_pos)
  have "exp (- v) \<le> exp (- u)" using assms by simp
  then show ?thesis using pu pv by (simp add: frac_le)
qed

lemma sigmoid_tail:
  fixes u v :: real
  assumes "40 \<le> u" and "u \<le> v"
  shows "\<bar>1 / (1 + exp (- v)) - 1 / (1 + exp (- u))\<bar> \<le> 1 / 10 ^ 8"
proof -
  have pu: "0 < 1 + exp (- u)" by (simp add: add_pos_pos)
  have pv: "0 < 1 + exp (- v)" by (simp add: add_pos_pos)
  have lo: "1 / (1 + exp (- u)) \<le> 1 / (1 + exp (- v))"
    using assms(2) by (rule sigmoid_mono)
  have "1 / (1 + exp (- v)) \<le> 1" using pv by simp
  moreover have "1 - 1 / (1 + exp (- u)) = exp (- u) / (1 + exp (- u))"
    using pu by (simp add: field_simps)
  moreover have "exp (- u) / (1 + exp (- u)) \<le> exp (- u)"
    using pu by (simp add: field_simps)
  moreover have "exp (- u) \<le> exp (- 40)" using assms(1) by simp
  moreover have "exp (- 40 :: real) \<le> 1 / 10 ^ 8"
  proof -
    have "exp (- 40 :: real) = 1 / exp 40" by (simp add: exp_minus inverse_eq_divide)
    also have "\<dots> \<le> 1 / 10 ^ 8" using exp_40_large by (intro divide_left_mono) simp_all
    finally show ?thesis .
  qed
  ultimately show ?thesis using lo by linarith
qed

text \<open>A loop that meets the tolerance on its first iterate returns that iterate.\<close>

lemma bisection_first_step:
  assumes "atol < 10" and "\<not> x < f 0" and "\<bar>f (0.5 * (0 + upper)) - x\<bar> \<le> atol"
  shows "bisection f lower upper x atol max_iters = 0.5 * (0 + upper)"
proof -
  let ?init = "bisection_init f lower upper x"
  have c0: "cond_fun atol max_iters ?init" using assms(1) by (simp add: cond_fun_def)
  have b: "bisection_body f ?init
    = \<lparr>v_x = x, v_current_x = f (0.5 * (0 + upper)), v_current_z = 0.5 * (0 + upper),
       v_lower = 0, v_upper = upper, v_dx = f (0.5 * (0 + upper)) - x, v_i = 1\<rparr>"
    using assms(2) by (simp add: bisection_body_def bisection_init_def Let_def)
  have c1: "\<not> cond_fun atol max_iters (bisection_body f ?init)"
    using assms(3) unfolding b by (simp add: cond_fun_def)
  have "while_loop f atol max_iters ?init = bisection_body f ?init"
    using c0 c1 by (subst while_loop.simps, simp, subst while_loop.simps, simp)
  then show ?thesis by (simp add: bisection_def b)
qed

lemma inverse_elem_row0_40:
  "inverse_elem Logistic True [0, 0, 0, 0, 0] (1 / (1 + exp (- 40))) = 500"
proof -
  have s: "mixture_cdf Logistic [0, 0, 0, 0, 0] = (\<lambda>v. 1 / (1 + exp (- v)))"
    by (rule ext) (rule logistic_cdf_row0)
  have t1: "\<not> 1 / (1 + exp (- 40 :: real)) < 1 / (1 + exp (- 0))"
    using sigmoid_mono [of 0 40] by simp
  have t2: "\<bar>1 / (1 + exp (- (0.5 * (0 + (0 + 1000)) :: real))) - 1 / (1 + exp (- 40))\<bar>
      \<le> default_atol"
    using sigmoid_tail [of 40 500] by (simp add: default_atol_def)
  have a: "default_atol < 10" by (simp add: default_atol_def)
  have "bisection (\<lambda>v. 1 / (1 + exp (- v))) (0 - 1000) (0 + 1000) (1 / (1 + exp (- 40)))
      default_atol default_max_iters = 0.5 * (0 + (0 + 1000))"
    using a t1 t2 by (rule bisection_first_step)
  then show ?thesis by (simp add: inverse_elem_def s row0_layout)
qed

lemma forward_row0_0:
  "mixture_forward Logistic [0] [[0, 0, 0, 0, 0]] True = Inr ([1 / 2], - 2 * ln 2)"
proof -
  have l: "length [0 :: real] = length [[0, 0, 0, 0, 0 :: real]]" by simp
  have w: "\<forall>row\<in>set [[0, 0, 0, 0, 0 :: real]]. 5 \<le> length row" by simp
  show ?thesis
    unfolding mixture_forward_value [OF l w]
    by (simp add: logistic_cdf_row0 logistic_density_row0 row0_layout log_sigmoid_0)
qed


lemma inverse_row0_40:
  "mixture_inverse Logistic [1 / (1 + exp (- 40))] [[0, 0, 0, 0, 0]] True
     = Inr ([500], log_sigmoid 500 + log_sigmoid (- 500))"
proof -
  have l: "length [1 / (1 + exp (- 40 :: real))] = length [[0, 0, 0, 0, 0 :: real]]" by simp
  have w: "\<forall>row\<in>set [[0, 0, 0, 0, 0 :: real]]. 5 \<le> length row" by simp
  show ?thesis
    unfolding mixture_inverse_value [OF l w]
    by (simp add: inverse_elem_row0_40 logistic_density_row0 row0_layout)
qed

subsection \<open>The forward direction\<close>



subsection \<open>The sign of the log-determinant\<close>

text \<open>
  Claim C2, as stated, fails for one logistic component with all parameters zero at
  \<open>x = 0\<close>: the forward pass returns \<open>z = 1/2\<close> with log-determinant \<open>- 2 ln 2\<close>, and
  the inverse pass on \<open>z = 1/2\<close> returns a negative log-determinant as well, so the
  two are not the negation of each other.
\<close>

theorem log_det_sign_counterexample:
  "mixture_forward Logistic [0] [[0, 0, 0, 0, 0]] True = Inr ([1 / 2], - 2 * ln 2)
   \<and> \<not> isl (mixture_inverse Logistic [1 / 2] [[0, 0, 0, 0, 0]] True)
   \<and> snd (projr (mixture_inverse Logistic [1 / 2] [[0, 0, 0, 0, 0]] True)) < 0
   \<and> - 2 * ln (2 :: real) < 0
   \<and> - 2 * ln 2 \<noteq> - snd (projr (mixture_inverse Logistic [1 / 2] [[0, 0, 0, 0, 0]] True))"
proof -
  have l: "length [0 :: real] = length [[0, 0, 0, 0, 0 :: real]]" by simp
  have l': "length [1 / 2 :: real] = length [[0, 0, 0, 0, 0 :: real]]" by simp
  have w: "\<forall>row\<in>set [[0, 0, 0, 0, 0 :: real]]. 5 \<le> length row" by simp
  note f = forward_row0_0
  define x' where "x' = inverse_elem Logistic True [0, 0, 0, 0, 0] (1 / 2)"
  have i: "mixture_inverse Logistic [1 / 2] [[0, 0, 0, 0, 0]] True
     = Inr ([x'], log_sigmoid x' + log_sigmoid (- x'))"
    unfolding mixture_inverse_value [OF l' w]
    by (simp add: logistic_density_row0 row0_layout x'_def)
  have neg: "log_sigmoid x' + log_sigmoid (- x') < 0"
    using log_sigmoid_neg [of x'] log_sigmoid_neg [of "- x'"] by linarith
  have ln2: "0 < ln (2 :: real)" by simp
  have i1: "\<not> isl (mixture_inverse Logistic [1 / 2] [[0, 0, 0, 0, 0]] True)"
    by (simp add: i)
  have i2: "snd (projr (mixture_inverse Logistic [1 / 2] [[0, 0, 0, 0, 0]] True))
      = log_sigmoid x' + log_sigmoid (- x')"
    by (simp add: i)
  have c3: "snd (projr (mixture_inverse Logistic [1 / 2] [[0, 0, 0, 0, 0]] True)) < 0"
    using neg i2 by linarith
  have lt: "- 2 * ln (2 :: real) < 0" using ln2 by simp
  have c5: "- 2 * ln 2
      \<noteq> - snd (projr (mixture_inverse Logistic [1 / 2] [[0, 0, 0, 0, 0]] True))"
    using neg ln2 i2 by linarith
  show ?thesis by (rule conjI [OF f conjI [OF i1 conjI [OF c3 conjI [OF lt c5]]]])
qed

text \<open>
  Claim C2, amended. Whenever the inverse pass returns \<open>(x', ld_i)\<close>, \<open>ld_i\<close> is the
  log-determinant that the forward pass reports at \<open>x'\<close> with the same parameters: both
  directions report the log-determinant of the forward map, with the same sign.
\<close>

theorem inverse_log_det_is_forward_log_det:
  assumes "mixture_inverse kind z theta with_affine_coupling = Inr (x', ld_i)"
  shows "map_sum id snd (mixture_forward kind x' theta with_affine_coupling) = Inr ld_i"
proof -
  have c: "length z = length theta" "\<forall>row\<in>set theta. 5 \<le> length row"
    using mixture_inverse_Inr_D [OF assms] by auto
  have x': "x' = map2 (inverse_elem kind with_affine_coupling) theta z"
    and ld: "ld_i = (\<Sum>(row, xe)\<leftarrow>zip theta x'. mixture_log_density kind row xe)
           + (if with_affine_coupling then - (\<Sum>row\<leftarrow>theta. bounded_log_s row) else 0)"
    using assms unfolding mixture_inverse_value [OF c] by auto
  have l: "length x' = length theta" using x' c(1) by simp
  show ?thesis
    unfolding mixture_forward_value [OF l c(2)] using ld by simp
qed

theorem inverse_log_det_is_forward_log_det_witness:
  "mixture_inverse Logistic [1 / (1 + exp (- 40))] [[0, 0, 0, 0, 0]] True
     = Inr ([500], log_sigmoid 500 + log_sigmoid (- 500))
   \<and> map_sum id snd (mixture_forward Logistic [500] [[0, 0, 0, 0, 0]] True)
     = Inr (log_sigmoid 500 + log_sigmoid (- 500))"
  using inverse_log_det_is_forward_log_det [OF inverse_row0_40] inverse_row0_40 by simp

subsection \<open>When the solver stops\<close>






text \<open>
  How many iterations the cap allows: when no iterate meets the tolerance the body runs
  \<open>max_iters + 1\<close> times, 10001 with the default, because the loop tests
  \<open>i > max_iters\<close>. The logistic CDF never comes near the target 2.
\<close>

lemma bisection_cap_run:
  assumes "atol < 10" and "\<forall>z. atol < \<bar>f z - x\<bar>"
  shows "v_i (while_loop f atol max_iters (bisection_init f lower upper x)) = Suc max_iters"
proof -
  let ?init = "bisection_init f lower upper x"
  from bisection_loop_run [OF assms(1), of f max_iters lower upper x]
  obtain n where n: "while_loop f atol max_iters ?init = iterate f n ?init" "1 \<le> n"
    "max_iters < n \<or> \<bar>f (v_current_z (iterate f n ?init)) - x\<bar> \<le> atol"
    "\<forall>k. 1 \<le> k \<and> k < n \<longrightarrow> k \<le> max_iters \<and>
          atol < \<bar>f (v_current_z (iterate f k ?init)) - x\<bar>"
    by blast
  have gt: "max_iters < n"
    using n(3) assms(2) by (meson not_le)
  have "n \<le> Suc max_iters"
  proof (cases "n = 1")
    case True
    then show ?thesis by simp
  next
    case False
    then have "1 \<le> n - 1 \<and> n - 1 < n" using n(2) by simp
    then have "n - 1 \<le> max_iters" using n(4) by blast
    then show ?thesis by simp
  qed
  then have "n = Suc max_iters" using gt by simp
  then show ?thesis by (simp add: n(1))
qed

lemma sigmoid_lt_1: "1 / (1 + exp (- v :: real)) < 1"
proof -
  have "0 < exp (- v)" by simp
  then show ?thesis by (simp add: add_pos_pos)
qed

lemma bisection_cap_iterations:
  "v_i (while_loop (mixture_cdf Logistic [0, 0, 0, 0, 0]) default_atol default_max_iters
         (bisection_init (mixture_cdf Logistic [0, 0, 0, 0, 0]) (- 1000) 1000 2)) = 10001"
proof -
  have a: "default_atol < 10" by (simp add: default_atol_def)
  have b: "\<forall>z. default_atol < \<bar>mixture_cdf Logistic [0, 0, 0, 0, 0] z - 2\<bar>"
  proof
    fix z :: real
    have "mixture_cdf Logistic [0, 0, 0, 0, 0] z < 1"
      using sigmoid_lt_1 [of z] by (simp add: logistic_cdf_row0)
    then show "default_atol < \<bar>mixture_cdf Logistic [0, 0, 0, 0, 0] z - 2\<bar>"
      by (simp add: default_atol_def)
  qed
  show ?thesis
    unfolding bisection_cap_run [OF a b] by (simp add: default_max_iters_def)
qed

subsection \<open>The round trip\<close>





end
